theory Spec2Isabelle
  imports Complex_Main "HOL-Library.Multiset"
begin

section \<open>Data model of package grant\<close>

text \<open>
  The asset enumeration \<^verbatim>\<open>altcurrency.AltCurrency\<close> is declared outside
  \<^verbatim>\<open>grant.go\<close>, which names only \<^verbatim>\<open>altcurrency.BAT\<close>; every other asset
  is \<open>OtherCurrency\<close> with its name.
\<close>

datatype altcurrency = BAT | OtherCurrency string

text \<open>
  \<^verbatim>\<open>decimal.Decimal\<close> is an arbitrary-precision decimal \<open>value * 10 ^ exp\<close>;
  \<^verbatim>\<open>Add\<close>, \<^verbatim>\<open>Sub\<close>, \<^verbatim>\<open>LessThan\<close> and \<^verbatim>\<open>GreaterThanOrEqual\<close> are
  exact, so a decimal is the rational number it denotes.
\<close>

type_synonym decimal = rat

definition decimal_New :: "int \<Rightarrow> int \<Rightarrow> decimal" where
  "decimal_New v e = (if 0 \<le> e then of_int v * 10 ^ nat e else of_int v / 10 ^ nat (- e))"

text \<open>
  Modelled from the spec: \<^verbatim>\<open>altcurrency.ToProbi\<close> is not part of the sources at hand.
  The glossary calls probi the smallest indivisible unit of the asset, so the
  conversion of an amount in asset units scales it by a power of ten; the
  number of decimal places of the asset is the parameter \<open>scale\<close>.
\<close>

definition ToProbi :: "nat \<Rightarrow> decimal \<Rightarrow> decimal" where
  "ToProbi scale v = v * 10 ^ scale"

text \<open>A Go byte slice; a \<open>char\<close> is one byte.\<close>

type_synonym bytes = "char list"

record WalletInfo =
  Provider :: string
  ProviderId :: string
  wAltCurrency :: altcurrency

text \<open>The wallet \<^verbatim>\<open>uphold.FromWalletInfo\<close> returns: the info and the key material.\<close>

record Wallet =
  Info :: WalletInfo
  PubKey :: bytes
  PrivKey :: bytes

text \<open>\<^verbatim>\<open>type Grant struct\<close>; the two UUIDs are held as their \<^verbatim>\<open>String()\<close> form.\<close>

record Grant =
  AltCurrency :: altcurrency
  GrantId :: string
  Probi :: decimal
  PromotionId :: string

record TransactionInfo =
  tAltCurrency :: altcurrency
  tProbi :: decimal
  Destination :: string

record Balance =
  SpendableProbi :: decimal

record RedeemGrantsRequest =
  Grants :: "string list"
  ReqWalletInfo :: WalletInfo
  Transaction :: string

text \<open>A parsed JWS, as far as \<^verbatim>\<open>FromCompactJWS\<close> reads it: the algorithm of each
  signature header, and the token it was parsed from.\<close>

record JWS =
  Signatures :: "string list"
  Token :: string

subsection \<open>Errors\<close>

text \<open>
  Errors of the collaborators (wallet provider, claim store, JOSE, JSON). The
  provider's submission errors are classified by \<^verbatim>\<open>wallet.IsInvalidSignature\<close>
  and \<^verbatim>\<open>wallet.IsInsufficientBalance\<close>.
\<close>

datatype adapter_error = InvalidSignature | InsufficientBalance | Failure string

definition IsInvalidSignature :: "adapter_error \<Rightarrow> bool" where
  "IsInvalidSignature e = (e = InvalidSignature)"

definition IsInsufficientBalance :: "adapter_error \<Rightarrow> bool" where
  "IsInsufficientBalance e = (e = InsufficientBalance)"

text \<open>
  The errors \<^verbatim>\<open>grant.go\<close> creates with \<^verbatim>\<open>errors.New\<close>, under the names the
  specification gives them, and \<open>External\<close> for an error of a collaborator
  that is returned as it is.
  \<^item> \<open>RefreshBalanceProduction\<close>: "refreshBalance must be true in production!!"
  \<^item> \<open>UnsupportedAlgorithm\<close>: "Error unsupported JWS algorithm"
  \<^item> \<open>AssetMismatch\<close>: "Only grants submitted with BAT transactions are supported"
  \<^item> \<open>BelowMinimum\<close>: "Included transactions must be for a minimum of 20 BAT"
  \<^item> \<open>NoShortfall\<close>: "Wallet has enough funds to cover transaction"
  \<^item> \<open>WrongDestination\<close>: "Included transactions must have settlement as their destination"
  \<^item> \<open>UnexpectedSuccess\<close>: "An included transaction unexpectedly succeeded"
  \<^item> \<open>WrongPublicKey\<close>: "The included transaction was signed with the wrong publicKey!"
  \<^item> \<open>ExcessGrants\<close>: "More grants included than are needed to fufill included transaction"
  \<^item> \<open>UnsupportedAsset\<close>: "All grants must be in BAT"
  \<^item> \<open>AlreadyRedeemed g\<close>: "Grant g has already been redeemed"
  \<^item> \<open>AlreadyRedeemedByWallet w\<close>: "Wallet w has already redeemed a grant from this promotion"
\<close>

datatype error =
    RefreshBalanceProduction
  | UnsupportedAlgorithm
  | AssetMismatch
  | BelowMinimum
  | NoShortfall
  | WrongDestination
  | UnexpectedSuccess
  | WrongPublicKey
  | ExcessGrants
  | UnsupportedAsset
  | AlreadyRedeemed string
  | AlreadyRedeemedByWallet string
  | External adapter_error

subsection \<open>Configuration, collaborators and state\<close>

text \<open>The package variables read from the environment, and \<^verbatim>\<open>refreshBalance\<close>.\<close>

record config =
  SettlementDestination :: string
  GrantSignatorPublicKeyHex :: string
  GrantWalletPublicKeyHex :: string
  GrantWalletPrivateKeyHex :: string
  GrantWalletCardId :: string
  ENV :: string
  refreshBalance :: bool

text \<open>
  The collaborators \<^verbatim>\<open>grant.go\<close> calls and does not define, as the answers they
  give during one call: \<^verbatim>\<open>hex.DecodeString\<close> (its error is discarded by the
  caller), \<^verbatim>\<open>uphold.FromWalletInfo\<close>, \<^verbatim>\<open>jose.ParseSigned\<close>, \<^verbatim>\<open>jws.Verify\<close>,
  \<^verbatim>\<open>json.Unmarshal\<close>, \<^verbatim>\<open>provider.GetWallet\<close>, the methods of \<^verbatim>\<open>wallet.Wallet\<close>,
  the failures (\<open>None\<close>: no failure) of \<^verbatim>\<open>datastore.GetSetDatastore\<close> and of the
  set's \<^verbatim>\<open>Add\<close>, and the decimal places of BAT.
\<close>

record adapters =
  hex_DecodeString :: "string \<Rightarrow> bytes"
  FromWalletInfo :: "WalletInfo \<Rightarrow> adapter_error + Wallet"
  ParseSigned :: "string \<Rightarrow> adapter_error + JWS"
  jws_Verify :: "JWS \<Rightarrow> bytes \<Rightarrow> adapter_error + bytes"
  json_Unmarshal :: "bytes \<Rightarrow> adapter_error + Grant"
  GetWallet :: "WalletInfo \<Rightarrow> adapter_error + Wallet"
  GetBalance :: "Wallet \<Rightarrow> bool \<Rightarrow> adapter_error + Balance"
  VerifyTransaction :: "Wallet \<Rightarrow> string \<Rightarrow> adapter_error + TransactionInfo"
  SubmitTransaction :: "Wallet \<Rightarrow> string \<Rightarrow> adapter_error + TransactionInfo"
  Transfer :: "Wallet \<Rightarrow> altcurrency \<Rightarrow> decimal \<Rightarrow> string \<Rightarrow> adapter_error + TransactionInfo"
  GetSetDatastore :: "string \<Rightarrow> adapter_error option"
  AddFailure :: "string \<Rightarrow> string \<Rightarrow> adapter_error option"
  BAT_scale :: nat

text \<open>
  The state the package reads and writes: the package variables
  \<^verbatim>\<open>grantPublicKey\<close> and \<^verbatim>\<open>grantWallet\<close> (an interface value, \<open>None\<close> while it
  is nil), and the claim store, the named sets of strings.
\<close>

type_synonym store = "string \<Rightarrow> string set"

record state =
  grantPublicKey :: bytes
  grantWallet :: "Wallet option"
  claims :: store

section \<open>InitGrantService\<close>

text \<open>
  \<^verbatim>\<open>grantPublicKey, _ = hex.DecodeString(...)\<close> assigns the package variable.
  \<^verbatim>\<open>grantWallet, err := uphold.FromWalletInfo(info)\<close> declares a new local
  \<^verbatim>\<open>grantWallet\<close>; the two key assignments that follow write its fields, and
  the local is dropped when the function returns.
\<close>

definition InitGrantService :: "config \<Rightarrow> adapters \<Rightarrow> state \<Rightarrow> error option \<times> state" where
  "InitGrantService cfg env st =
     (let st1 = st\<lparr>grantPublicKey := hex_DecodeString env (GrantSignatorPublicKeyHex cfg)\<rparr> in
      if ENV cfg = ''production'' \<and> refreshBalance cfg \<noteq> True
      then (Some RefreshBalanceProduction, st1)
      else
        let info = \<lparr>Provider = ''uphold'', ProviderId = GrantWalletCardId cfg, wAltCurrency = BAT\<rparr> in
        case FromWalletInfo env info of
          Inl err \<Rightarrow> (Some (External err), st1)
        | Inr local_grantWallet \<Rightarrow>
            let local_grantWallet = local_grantWallet\<lparr>PubKey := hex_DecodeString env (GrantWalletPublicKeyHex cfg)\<rparr>;
                local_grantWallet = local_grantWallet\<lparr>PrivKey := hex_DecodeString env (GrantWalletPrivateKeyHex cfg)\<rparr>
            in (None, st1))"

section \<open>Sorting by probi\<close>

definition ByProbi_Less :: "Grant \<Rightarrow> Grant \<Rightarrow> bool" where
  "ByProbi_Less a b = (Probi a < Probi b)"

text \<open>\<^verbatim>\<open>sort.Reverse\<close>: \<^verbatim>\<open>Less(i, j)\<close> of the reversed order is \<^verbatim>\<open>Less(j, i)\<close>.\<close>

definition Reverse :: "('a \<Rightarrow> 'a \<Rightarrow> bool) \<Rightarrow> 'a \<Rightarrow> 'a \<Rightarrow> bool" where
  "Reverse lt a b = lt b a"

text \<open>
  \<^verbatim>\<open>sort.Sort\<close> of the Go library orders the slice by \<^verbatim>\<open>Less\<close> and is not
  stable by contract. On a short slice it is the library's insertion sort,
  \<^verbatim>\<open>for i := a + 1; i < b; i++ { for j := i; j > a && Less(j, j-1); j-- { Swap(j, j-1) } }\<close>,
  which is what \<open>sort_Sort\<close> runs: \<open>sink\<close> is the inner loop, moving the element
  \<open>x\<close> down the part already ordered, held nearest neighbour first.
\<close>

fun sink :: "('a \<Rightarrow> 'a \<Rightarrow> bool) \<Rightarrow> 'a \<Rightarrow> 'a list \<Rightarrow> 'a list" where
  "sink lt x [] = [x]"
| "sink lt x (y # ys) = (if lt x y then y # sink lt x ys else x # y # ys)"

definition sort_Sort :: "('a \<Rightarrow> 'a \<Rightarrow> bool) \<Rightarrow> 'a list \<Rightarrow> 'a list" where
  "sort_Sort lt xs = rev (foldl (\<lambda>ordered x. sink lt x ordered) [] xs)"

definition sortGrants :: "Grant list \<Rightarrow> Grant list" where
  "sortGrants grants = sort_Sort (Reverse ByProbi_Less) grants"

section \<open>Verify\<close>

definition FromCompactJWS :: "adapters \<Rightarrow> state \<Rightarrow> string \<Rightarrow> error + Grant" where
  "FromCompactJWS env st s =
     (case ParseSigned env s of
        Inl err \<Rightarrow> Inl (External err)
      | Inr jws \<Rightarrow>
          if list_ex (\<lambda>alg. alg \<noteq> ''ed25519'') (Signatures jws) then Inl UnsupportedAlgorithm
          else
            (case jws_Verify env jws (grantPublicKey st) of
               Inl err \<Rightarrow> Inl (External err)
             | Inr grantBytes \<Rightarrow>
                 (case json_Unmarshal env grantBytes of
                    Inl err \<Rightarrow> Inl (External err)
                  | Inr grant \<Rightarrow> Inr grant)))"

text \<open>Step 1: decode the grants in request order, stopping at the first error.\<close>

fun decodeGrants :: "adapters \<Rightarrow> state \<Rightarrow> string list \<Rightarrow> error + Grant list" where
  "decodeGrants env st [] = Inr []"
| "decodeGrants env st (grantJWS # rest) =
     (case FromCompactJWS env st grantJWS of
        Inl err \<Rightarrow> Inl err
      | Inr grant \<Rightarrow>
          (case decodeGrants env st rest of
             Inl err \<Rightarrow> Inl err
           | Inr grants \<Rightarrow> Inr (grant # grants)))"

text \<open>\<^verbatim>\<open>limit := decimal.New(20, 1)\<close>, converted by \<^verbatim>\<open>altcurrency.BAT.ToProbi\<close>.\<close>

definition limit :: decimal where
  "limit = decimal_New 20 1"

definition minimumProbi :: "adapters \<Rightarrow> decimal" where
  "minimumProbi env = ToProbi (BAT_scale env) limit"

text \<open>
  Step 2: the wallet, its balance, the transaction and the checks on it, then
  the submission that is expected to fail for want of funds.
\<close>

definition checkTransaction ::
  "config \<Rightarrow> adapters \<Rightarrow> RedeemGrantsRequest \<Rightarrow> error + (TransactionInfo \<times> Balance)" where
  "checkTransaction cfg env req =
     (case GetWallet env (ReqWalletInfo req) of
        Inl err \<Rightarrow> Inl (External err)
      | Inr userWallet \<Rightarrow>
     (case GetBalance env userWallet (refreshBalance cfg) of
        Inl err \<Rightarrow> Inl (External err)
      | Inr balance \<Rightarrow>
     (case VerifyTransaction env userWallet (Transaction req) of
        Inl err \<Rightarrow> Inl (External err)
      | Inr txInfo \<Rightarrow>
          if tAltCurrency txInfo \<noteq> BAT then Inl AssetMismatch
          else if tProbi txInfo < minimumProbi env then Inl BelowMinimum
          else if tProbi txInfo < SpendableProbi balance then Inl NoShortfall
          else if Destination txInfo \<noteq> SettlementDestination cfg then Inl WrongDestination
          else
            (case SubmitTransaction env userWallet (Transaction req) of
               Inr _ \<Rightarrow> Inl UnexpectedSuccess
             | Inl err \<Rightarrow>
                 if IsInvalidSignature err then Inl WrongPublicKey
                 else if \<not> IsInsufficientBalance err then Inl (External err)
                 else Inr (txInfo, balance)))))"

text \<open>Steps 4 and 5: the loop over the sorted grants, with its running sum.\<close>

fun sumGrants :: "decimal \<Rightarrow> decimal \<Rightarrow> Grant list \<Rightarrow> error + decimal" where
  "sumGrants needed sumProbi [] = Inr sumProbi"
| "sumGrants needed sumProbi (grant # rest) =
     (if needed \<le> sumProbi then Inl ExcessGrants
      else if AltCurrency grant \<noteq> BAT then Inl UnsupportedAsset
      else sumGrants needed (sumProbi + Probi grant) rest)"

text \<open>Steps 3 to 5: sort, then sum from \<^verbatim>\<open>decimal.New(0, 1)\<close>.\<close>

definition selectGrants :: "decimal \<Rightarrow> Grant list \<Rightarrow> error + decimal" where
  "selectGrants needed grants = sumGrants needed (decimal_New 0 1) (sortGrants grants)"

text \<open>
  Modelled from the spec: the set behind \<^verbatim>\<open>datastore.GetSetDatastore\<close> is not
  part of the sources at hand (of \<^verbatim>\<open>utils/set\<close> only the test is, which
  expects \<^verbatim>\<open>Add\<close> to report \<^verbatim>\<open>true\<close> for a new element and \<^verbatim>\<open>false\<close>
  for one that is present). \<^verbatim>\<open>Add\<close> is the atomic add-if-absent of the
  specification: it returns whether the element was newly added.
\<close>

definition set_Add :: "adapters \<Rightarrow> string \<Rightarrow> string \<Rightarrow> store \<Rightarrow> (adapter_error + bool) \<times> store" where
  "set_Add env name x s =
     (case AddFailure env name x of
        Some err \<Rightarrow> (Inl err, s)
      | None \<Rightarrow> if x \<in> s name then (Inr False, s) else (Inr True, s(name := insert x (s name))))"

definition grantsKey :: "Grant \<Rightarrow> string" where
  "grantsKey grant = ''promotion:'' @ PromotionId grant @ '':grants''"

definition walletsKey :: "Grant \<Rightarrow> string" where
  "walletsKey grant = ''promotion:'' @ PromotionId grant @ '':wallets''"

text \<open>Step 6: the loop that claims each grant and the wallet under its promotion.\<close>

fun claimGrants :: "adapters \<Rightarrow> string \<Rightarrow> Grant list \<Rightarrow> store \<Rightarrow> error option \<times> store" where
  "claimGrants env walletId [] s = (None, s)"
| "claimGrants env walletId (grant # rest) s =
     (case GetSetDatastore env (grantsKey grant) of
        Some err \<Rightarrow> (Some (External err), s)
      | None \<Rightarrow>
     (case GetSetDatastore env (walletsKey grant) of
        Some err \<Rightarrow> (Some (External err), s)
      | None \<Rightarrow>
     (case set_Add env (grantsKey grant) (GrantId grant) s of
        (Inl err, s1) \<Rightarrow> (Some (External err), s1)
      | (Inr result, s1) \<Rightarrow>
          if result \<noteq> True then (Some (AlreadyRedeemed (GrantId grant)), s1)
          else
            (case set_Add env (walletsKey grant) walletId s1 of
               (Inl err, s2) \<Rightarrow> (Some (External err), s2)
             | (Inr result, s2) \<Rightarrow>
                 if result \<noteq> True then (Some (AlreadyRedeemedByWallet walletId), s2)
                 else claimGrants env walletId rest s2))))"

text \<open>
  \<^verbatim>\<open>Verify\<close> returns \<^verbatim>\<open>(*wallet.TransactionInfo, error)\<close>: \<open>Inl\<close> is a nil
  pointer with the error, \<open>Inr\<close> the transaction info with a nil error.
\<close>

definition Verify ::
  "config \<Rightarrow> adapters \<Rightarrow> RedeemGrantsRequest \<Rightarrow> state \<Rightarrow> (error + TransactionInfo) \<times> state" where
  "Verify cfg env req st =
     (case decodeGrants env st (Grants req) of
        Inl err \<Rightarrow> (Inl err, st)
      | Inr grants \<Rightarrow>
     (case checkTransaction cfg env req of
        Inl err \<Rightarrow> (Inl err, st)
      | Inr (txInfo, balance) \<Rightarrow>
     (case selectGrants (tProbi txInfo - SpendableProbi balance) grants of
        Inl err \<Rightarrow> (Inl err, st)
      | Inr sumProbi \<Rightarrow>
     (case claimGrants env (ProviderId (ReqWalletInfo req)) (sortGrants grants) (claims st) of
        (Some err, s) \<Rightarrow> (Inl err, st\<lparr>claims := s\<rparr>)
      | (None, s) \<Rightarrow>
          (Inr \<lparr>tAltCurrency = BAT, tProbi = sumProbi,
                Destination = ProviderId (ReqWalletInfo req)\<rparr>,
           st\<lparr>claims := s\<rparr>)))))"

section \<open>Redeem\<close>

text \<open>
  \<^verbatim>\<open>Redeem\<close> returns an error (\<open>None\<close>: nil) or panics on a nil dereference:
  of \<^verbatim>\<open>txInfo\<close>, whose fields are the operands of the call of
  \<^verbatim>\<open>Transfer\<close>, or of the package variable \<^verbatim>\<open>grantWallet\<close>, the receiver.
  The operands are evaluated before the call is dispatched on the receiver.
\<close>

datatype nil_pointer = NilTxInfo | NilGrantWallet

datatype outcome = Returns "error option" | Panics nil_pointer

text \<open>
  \<^verbatim>\<open>txInfo, err := req.Verify(ctx)\<close> and then \<^verbatim>\<open>_, err = req.Verify(ctx)\<close>:
  the transaction info is the first call's, the error the second's. The
  collaborators answer as \<open>env1\<close> during the first call of \<^verbatim>\<open>Verify\<close>, as
  \<open>env2\<close> during the second and as \<open>env3\<close> afterwards.
\<close>

definition Redeem ::
  "config \<Rightarrow> adapters \<Rightarrow> adapters \<Rightarrow> adapters \<Rightarrow> RedeemGrantsRequest \<Rightarrow> state \<Rightarrow> outcome \<times> state" where
  "Redeem cfg env1 env2 env3 req st =
     (case Verify cfg env1 req st of (first, st1) \<Rightarrow>
      case Verify cfg env2 req st1 of (second, st2) \<Rightarrow>
      (case second of
         Inl err \<Rightarrow> (Returns (Some err), st2)
       | Inr _ \<Rightarrow>
      (case GetWallet env3 (ReqWalletInfo req) of
         Inl err \<Rightarrow> (Returns (Some (External err)), st2)
       | Inr userWallet \<Rightarrow>
      (case first of
         Inl _ \<Rightarrow> (Panics NilTxInfo, st2)
       | Inr txInfo \<Rightarrow>
      (case grantWallet st2 of
         None \<Rightarrow> (Panics NilGrantWallet, st2)
       | Some custodial \<Rightarrow>
      (case Transfer env3 custodial (tAltCurrency txInfo) (tProbi txInfo) (Destination txInfo) of
         Inl err \<Rightarrow> (Returns (Some (External err)), st2)
       | Inr _ \<Rightarrow>
      (case SubmitTransaction env3 userWallet (Transaction req) of
         Inl err \<Rightarrow> (Returns (Some (External err)), st2)
       | Inr _ \<Rightarrow> (Returns None, st2))))))))"

section \<open>Inputs of the worked examples\<close>

text \<open>
  Collaborators that answer without failure: a token is verified against any
  key and decodes to the grant the table \<open>tokens\<close> gives it, the wallet's
  spendable balance is \<open>spendable\<close>, the signed transaction decodes to \<open>tx\<close>,
  its submission fails for insufficient balance, the claim store is reachable,
  and BAT has 18 decimal places.
\<close>

definition fixture :: "(string \<times> Grant) list \<Rightarrow> decimal \<Rightarrow> TransactionInfo \<Rightarrow> adapters" where
  "fixture tokens spendable tx =
     \<lparr>hex_DecodeString = (\<lambda>s. s),
      FromWalletInfo = (\<lambda>info. Inr \<lparr>Info = info, PubKey = [], PrivKey = []\<rparr>),
      ParseSigned = (\<lambda>s. Inr \<lparr>Signatures = [''ed25519''], Token = s\<rparr>),
      jws_Verify = (\<lambda>jws key. Inr (Token jws)),
      json_Unmarshal = (\<lambda>payload. case map_of tokens payload of
                                      None \<Rightarrow> Inl (Failure ''json'')
                                    | Some grant \<Rightarrow> Inr grant),
      GetWallet = (\<lambda>info. Inr \<lparr>Info = info, PubKey = [], PrivKey = []\<rparr>),
      GetBalance = (\<lambda>w refresh. Inr \<lparr>SpendableProbi = spendable\<rparr>),
      VerifyTransaction = (\<lambda>w signed. Inr tx),
      SubmitTransaction = (\<lambda>w signed. Inl InsufficientBalance),
      Transfer = (\<lambda>w currency probi destination.
                    Inr \<lparr>tAltCurrency = currency, tProbi = probi, Destination = destination\<rparr>),
      GetSetDatastore = (\<lambda>name. None),
      AddFailure = (\<lambda>name x. None),
      BAT_scale = 18\<rparr>"

definition settings :: config where
  "settings =
     \<lparr>SettlementDestination = ''settlement'',
      GrantSignatorPublicKeyHex = ''aa'',
      GrantWalletPublicKeyHex = ''bb'',
      GrantWalletPrivateKeyHex = ''cc'',
      GrantWalletCardId = ''card'',
      ENV = ''test'',
      refreshBalance = True\<rparr>"

text \<open>The state at process start: no key, a nil custodial wallet, an empty claim store.\<close>

definition fresh :: state where
  "fresh = \<lparr>grantPublicKey = [], grantWallet = None, claims = (\<lambda>name. {})\<rparr>"

definition batGrant :: "string \<Rightarrow> string \<Rightarrow> decimal \<Rightarrow> Grant" where
  "batGrant gid pid p = \<lparr>AltCurrency = BAT, GrantId = gid, Probi = p, PromotionId = pid\<rparr>"

definition request :: "string list \<Rightarrow> RedeemGrantsRequest" where
  "request tokens =
     \<lparr>Grants = tokens,
      ReqWalletInfo = \<lparr>Provider = ''uphold'', ProviderId = ''w1'', wAltCurrency = BAT\<rparr>,
      Transaction = ''tx''\<rparr>"

text \<open>A transaction of \<open>bat\<close> asset units of BAT to \<open>destination\<close>.\<close>

definition payment :: "decimal \<Rightarrow> string \<Rightarrow> TransactionInfo" where
  "payment bat destination = \<lparr>tAltCurrency = BAT, tProbi = ToProbi 18 bat, Destination = destination\<rparr>"

section \<open>Properties\<close>

lemma decimal_New_20_1: "decimal_New 20 1 = 200"
  by (simp add: decimal_New_def)

subsection \<open>The sort and the selection loop\<close>

lemma mset_sink: "mset (sink lt x ys) = add_mset x (mset ys)"
  by (induction ys) auto

lemma mset_foldl_sink: "mset (foldl (\<lambda>ordered x. sink lt x ordered) acc xs) = mset acc + mset xs"
  by (induction xs arbitrary: acc) (auto simp: mset_sink)

lemma mset_sort_Sort: "mset (sort_Sort lt xs) = mset xs"
  by (simp add: sort_Sort_def mset_foldl_sink)

lemma set_sink: "set (sink lt x ys) = insert x (set ys)"
  by (metis mset_sink set_mset_add_mset_insert set_mset_mset)

lemma sorted_sink:
  "sorted (map Probi ys) \<Longrightarrow> sorted (map Probi (sink (Reverse ByProbi_Less) x ys))"
  by (induction ys) (auto simp: set_sink Reverse_def ByProbi_Less_def)

lemma sorted_foldl_sink:
  "sorted (map Probi acc) \<Longrightarrow>
   sorted (map Probi (foldl (\<lambda>ordered x. sink (Reverse ByProbi_Less) x ordered) acc xs))"
  by (induction xs arbitrary: acc) (auto simp: sorted_sink)

lemma mset_sortGrants: "mset (sortGrants grants) = mset grants"
  by (simp add: sortGrants_def mset_sort_Sort)

lemma set_sortGrants: "set (sortGrants grants) = set grants"
  by (metis mset_sortGrants set_mset_mset)

lemma length_sortGrants: "length (sortGrants grants) = length grants"
  by (metis mset_sortGrants size_mset)

lemma sorted_rev_sortGrants: "sorted (rev (map Probi (sortGrants grants)))"
  using sorted_foldl_sink [of "[]" grants]
  by (simp add: sortGrants_def sort_Sort_def rev_map)

lemma Probi_sortGrants: "map Probi (sortGrants grants) = rev (sort (map Probi grants))"
proof -
  have "mset (rev (map Probi (sortGrants grants))) = mset (map Probi grants)"
    by (simp add: mset_sortGrants)
  then have "sort (map Probi grants) = rev (map Probi (sortGrants grants))"
    using sorted_rev_sortGrants by (rule properties_for_sort)
  then show ?thesis by simp
qed


lemma sum_Probi_sortGrants: "sum_list (map Probi (sortGrants grants)) = sum_list (map Probi grants)"
proof -
  have "mset (map Probi (sortGrants grants)) = mset (map Probi grants)"
    by (simp add: mset_sortGrants)
  then show ?thesis by (metis sum_mset_sum_list)
qed


lemma sumGrants_Inr_iff:
  "sumGrants needed s gs = Inr tot \<longleftrightarrow>
   (\<forall>g\<in>set gs. AltCurrency g = BAT) \<and>
   (\<forall>i<length gs. s + sum_list (map Probi (take i gs)) < needed) \<and>
   tot = s + sum_list (map Probi gs)"
proof (induction gs arbitrary: s)
  case Nil
  then show ?case by auto
next
  case (Cons g gs)
  have split: "(\<forall>i<length (g # gs). s + sum_list (map Probi (take i (g # gs))) < needed) \<longleftrightarrow>
     s < needed \<and> (\<forall>i<length gs. (s + Probi g) + sum_list (map Probi (take i gs)) < needed)"
    (is "?L \<longleftrightarrow> ?R")
  proof
    assume l: ?L
    have "s < needed" using l [rule_format, of 0] by simp
    moreover have "\<forall>i<length gs. (s + Probi g) + sum_list (map Probi (take i gs)) < needed"
    proof (intro allI impI)
      fix i assume "i < length gs"
      then show "(s + Probi g) + sum_list (map Probi (take i gs)) < needed"
        using l [rule_format, of "Suc i"] by (simp add: add.assoc)
    qed
    ultimately show ?R by simp
  next
    assume r: ?R
    show ?L
    proof (intro allI impI)
      fix i assume "i < length (g # gs)"
      then show "s + sum_list (map Probi (take i (g # gs))) < needed"
        using r by (cases i) (simp_all add: add.assoc)
    qed
  qed
  show ?case
    unfolding split using Cons.IH [of "s + Probi g"]
    by (auto simp: add.assoc not_le)
qed

lemma decimal_New_0_1: "decimal_New 0 1 = 0"
  by (simp add: decimal_New_def)

lemma sumGrants_BAT_Probi:
  "\<forall>g\<in>set gs. AltCurrency g = BAT \<Longrightarrow> \<forall>g\<in>set gs'. AltCurrency g = BAT \<Longrightarrow>
   map Probi gs = map Probi gs' \<Longrightarrow> sumGrants needed s gs = sumGrants needed s gs'"
proof (induction gs arbitrary: gs' s)
  case Nil
  then show ?case by simp
next
  case (Cons g gs)
  from Cons.prems(3) obtain g' rest where gs': "gs' = g' # rest"
    by (cases gs') simp_all
  from Cons.prems(3) gs' have p: "Probi g = Probi g'" and m: "map Probi gs = map Probi rest"
    by simp_all
  from Cons.prems(1) have b: "AltCurrency g = BAT" and bs: "\<forall>g\<in>set gs. AltCurrency g = BAT"
    by simp_all
  from Cons.prems(2) gs' have b': "AltCurrency g' = BAT"
    and bs': "\<forall>g\<in>set rest. AltCurrency g = BAT"
    by simp_all
  have "sumGrants needed (s + Probi g) gs = sumGrants needed (s + Probi g) rest"
    using bs bs' m by (rule Cons.IH)
  then show ?case
    unfolding gs' using p b b' by simp
qed

subsection \<open>C1: selection over the sorted grants\<close>




subsection \<open>C8: the selection and the order of the input\<close>

text \<open>
  C8, as the code has it. \<^verbatim>\<open>ByProbi.Less\<close> compares the probi alone, so for
  two input orders of the same multiset of grants the sorted sequences of
  probi are the same, the selection succeeds for one exactly when it succeeds
  for the other and with the same total, and when every grant is in BAT the
  outcome, failure included, is the same. The order of grants of equal probi
  is not fixed by any tie-break.
\<close>

theorem selectGrants_input_order:
  assumes "mset grants = mset grants'"
  shows "map Probi (sortGrants grants) = map Probi (sortGrants grants') \<and>
         (selectGrants needed grants = Inr tot \<longleftrightarrow> selectGrants needed grants' = Inr tot) \<and>
         ((\<forall>g\<in>set grants. AltCurrency g = BAT) \<longrightarrow>
            selectGrants needed grants = selectGrants needed grants')"
proof -
  have probi: "map Probi (sortGrants grants) = map Probi (sortGrants grants')"
  proof -
    have "mset (map Probi grants) = mset (map Probi grants')" using assms by simp
    then have "sort (map Probi grants) = sort (map Probi grants')"
      by (metis mset_sort properties_for_sort sorted_sort)
    then show ?thesis by (simp add: Probi_sortGrants)
  qed
  have sets: "set grants = set grants'" using assms by (metis set_mset_mset)
  have len: "length grants = length grants'" using assms by (metis size_mset)
  have sums: "sum_list (map Probi grants) = sum_list (map Probi grants')"
  proof -
    have "mset (map Probi grants) = mset (map Probi grants')" using assms by simp
    then show ?thesis by (metis sum_mset_sum_list)
  qed
  have prefix: "sum_list (map Probi (take i (sortGrants grants))) =
                sum_list (map Probi (take i (sortGrants grants')))" for i
    using probi by (simp add: take_map [symmetric])
  have inr: "selectGrants needed grants = Inr tot \<longleftrightarrow> selectGrants needed grants' = Inr tot"
    using sumGrants_Inr_iff [of needed 0 "sortGrants grants" tot]
      sumGrants_Inr_iff [of needed 0 "sortGrants grants'" tot]
    by (simp add: selectGrants_def decimal_New_0_1 length_sortGrants set_sortGrants
        sum_Probi_sortGrants sets len sums prefix)
  have same: "selectGrants needed grants = selectGrants needed grants'"
    if "\<forall>g\<in>set grants. AltCurrency g = BAT"
    unfolding selectGrants_def
    using that sets probi by (intro sumGrants_BAT_Probi) (simp_all add: set_sortGrants)
  from probi inr same show ?thesis by blast
qed

text \<open>Grants of 15 and 20 in both orders against a shortfall of 25: total 35.\<close>

theorem selectGrants_input_order_witness:
  "mset [batGrant ''g1'' ''p1'' 15, batGrant ''g2'' ''p2'' 20] =
     mset [batGrant ''g2'' ''p2'' 20, batGrant ''g1'' ''p1'' 15] \<and>
   selectGrants 25 [batGrant ''g1'' ''p1'' 15, batGrant ''g2'' ''p2'' 20] =
     selectGrants 25 [batGrant ''g2'' ''p2'' 20, batGrant ''g1'' ''p1'' 15] \<and>
   selectGrants 25 [batGrant ''g2'' ''p2'' 20, batGrant ''g1'' ''p1'' 15] = Inr 35"
proof -
  let ?a = "[batGrant ''g1'' ''p1'' 15, batGrant ''g2'' ''p2'' 20]"
  let ?b = "[batGrant ''g2'' ''p2'' 20, batGrant ''g1'' ''p1'' 15]"
  have m: "mset ?a = mset ?b" by simp
  have bat: "\<forall>g\<in>set ?a. AltCurrency g = BAT" by (simp add: batGrant_def)
  have eq: "selectGrants 25 ?a = selectGrants 25 ?b"
    using selectGrants_input_order [OF m, of 25] bat by blast
  have "selectGrants 25 ?b = Inr 35"
    by (simp add: selectGrants_def sortGrants_def sort_Sort_def Reverse_def ByProbi_Less_def
        batGrant_def decimal_New_0_1)
  with m eq show ?thesis by simp
qed

text \<open>
  C8 as stated fails on a tie between a BAT grant and a grant in another
  asset, both of 30, against a shortfall of 25: the two input orders have
  different sorted orders and different failures.
\<close>

theorem selectGrants_tie_counterexample:
  "mset [batGrant ''g1'' ''p1'' 30,
         \<lparr>AltCurrency = OtherCurrency ''ETH'', GrantId = ''g2'', Probi = 30, PromotionId = ''p2''\<rparr>] =
   mset [\<lparr>AltCurrency = OtherCurrency ''ETH'', GrantId = ''g2'', Probi = 30, PromotionId = ''p2''\<rparr>,
         batGrant ''g1'' ''p1'' 30] \<and>
   sortGrants [batGrant ''g1'' ''p1'' 30,
         \<lparr>AltCurrency = OtherCurrency ''ETH'', GrantId = ''g2'', Probi = 30, PromotionId = ''p2''\<rparr>] \<noteq>
   sortGrants [\<lparr>AltCurrency = OtherCurrency ''ETH'', GrantId = ''g2'', Probi = 30, PromotionId = ''p2''\<rparr>,
         batGrant ''g1'' ''p1'' 30] \<and>
   selectGrants 25 [batGrant ''g1'' ''p1'' 30,
         \<lparr>AltCurrency = OtherCurrency ''ETH'', GrantId = ''g2'', Probi = 30, PromotionId = ''p2''\<rparr>]
     = Inl ExcessGrants \<and>
   selectGrants 25 [\<lparr>AltCurrency = OtherCurrency ''ETH'', GrantId = ''g2'', Probi = 30, PromotionId = ''p2''\<rparr>,
         batGrant ''g1'' ''p1'' 30]
     = Inl UnsupportedAsset"
  by (simp add: selectGrants_def sortGrants_def sort_Sort_def Reverse_def ByProbi_Less_def
      batGrant_def decimal_New_0_1)

subsection \<open>The checks on the transaction\<close>

lemma minimumProbi_200: "minimumProbi env = ToProbi (BAT_scale env) 200"
  by (simp add: minimumProbi_def limit_def decimal_New_20_1)

lemma decodeGrants_error:
  "decodeGrants env st tokens = Inl e \<Longrightarrow> e = UnsupportedAlgorithm \<or> (\<exists>a. e = External a)"
  by (induction tokens arbitrary: e)
     (auto simp: FromCompactJWS_def split: sum.splits if_splits)

lemma sumGrants_error:
  "sumGrants needed s gs = Inl e \<Longrightarrow> e = ExcessGrants \<or> e = UnsupportedAsset"
  by (induction gs arbitrary: s) (auto split: if_splits)

lemma selectGrants_error:
  "selectGrants needed gs = Inl e \<Longrightarrow> e = ExcessGrants \<or> e = UnsupportedAsset"
  unfolding selectGrants_def by (rule sumGrants_error)

lemma claimGrants_error:
  "claimGrants env w gs s = (Some e, s') \<Longrightarrow>
   (\<exists>a. e = External a) \<or> (\<exists>g. e = AlreadyRedeemed g) \<or> e = AlreadyRedeemedByWallet w"
  by (induction gs arbitrary: s)
     (auto simp: set_Add_def split: option.splits if_splits sum.splits prod.splits)

text \<open>What \<^verbatim>\<open>Verify\<close> returns once steps 1 and 2 have failed or passed.\<close>

lemma Verify_decode_error:
  "decodeGrants env st (Grants req) = Inl e \<Longrightarrow> Verify cfg env req st = (Inl e, st)"
  by (simp add: Verify_def)

lemma Verify_check_error:
  "decodeGrants env st (Grants req) = Inr gs \<Longrightarrow> checkTransaction cfg env req = Inl e \<Longrightarrow>
   Verify cfg env req st = (Inl e, st)"
  by (simp add: Verify_def)

lemma Verify_failure_before_claims:
  "decodeGrants env st (Grants req) = Inl e \<or> checkTransaction cfg env req = Inl e' \<Longrightarrow>
   \<exists>x. Verify cfg env req st = (Inl x, st)"
  by (auto simp: Verify_def split: sum.splits)

lemma Verify_past_checks:
  "decodeGrants env st (Grants req) = Inr gs \<Longrightarrow> checkTransaction cfg env req = Inr (t, b) \<Longrightarrow>
   fst (Verify cfg env req st) \<noteq> Inl NoShortfall \<and>
   fst (Verify cfg env req st) \<noteq> Inl WrongDestination \<and>
   fst (Verify cfg env req st) \<noteq> Inl BelowMinimum"
  by (auto simp: Verify_def split: sum.splits prod.splits option.splits
      dest: selectGrants_error claimGrants_error)

lemma checkTransaction_NoShortfall_iff:
  "checkTransaction cfg env req = Inl NoShortfall \<longleftrightarrow>
   (\<exists>w b t. GetWallet env (ReqWalletInfo req) = Inr w \<and>
      GetBalance env w (refreshBalance cfg) = Inr b \<and>
      VerifyTransaction env w (Transaction req) = Inr t \<and>
      tAltCurrency t = BAT \<and> \<not> tProbi t < minimumProbi env \<and>
      tProbi t < SpendableProbi b)"
  by (auto simp: checkTransaction_def split: sum.splits if_splits)
lemma checkTransaction_wrong_destination:
  assumes "GetWallet env (ReqWalletInfo req) = Inr w"
      and "VerifyTransaction env w (Transaction req) = Inr t"
      and "Destination t \<noteq> SettlementDestination cfg"
  shows "\<exists>e. checkTransaction cfg env req = Inl e \<and>
           (e = WrongDestination \<longleftrightarrow>
              (\<exists>b. GetBalance env w (refreshBalance cfg) = Inr b \<and> tAltCurrency t = BAT \<and>
                   \<not> tProbi t < minimumProbi env \<and> \<not> tProbi t < SpendableProbi b))"
  using assms by (auto simp: checkTransaction_def split: sum.splits)

lemma checkTransaction_BelowMinimum_iff:
  assumes "GetWallet env (ReqWalletInfo req) = Inr w"
      and "GetBalance env w (refreshBalance cfg) = Inr b"
      and "VerifyTransaction env w (Transaction req) = Inr t"
      and "tAltCurrency t = BAT"
  shows "checkTransaction cfg env req = Inl BelowMinimum \<longleftrightarrow> tProbi t < minimumProbi env"
  using assms by (auto simp: checkTransaction_def split: sum.splits)

subsection \<open>C4: the minimum threshold\<close>

text \<open>
  C4, evaluated on the code. \<^verbatim>\<open>decimal.New(20, 1)\<close> is 20 * 10 = 200, so
  the threshold is 200 BAT converted to probi, not 20: once the grants are
  decoded and the wallet, its balance and a BAT transaction are obtained,
  \<^verbatim>\<open>Verify\<close> fails with \<open>BelowMinimum\<close> (whose message names a minimum of 20
  BAT) exactly when the transaction is below 200 BAT.
\<close>

theorem Verify_BelowMinimum_200:
  assumes "decodeGrants env st (Grants req) = Inr gs"
      and "GetWallet env (ReqWalletInfo req) = Inr w"
      and "GetBalance env w (refreshBalance cfg) = Inr b"
      and "VerifyTransaction env w (Transaction req) = Inr t"
      and "tAltCurrency t = BAT"
  shows "limit = 200 \<and>
         (Verify cfg env req st = (Inl BelowMinimum, st) \<longleftrightarrow>
            tProbi t < ToProbi (BAT_scale env) 200)"
proof -
  have iff: "checkTransaction cfg env req = Inl BelowMinimum \<longleftrightarrow>
        tProbi t < ToProbi (BAT_scale env) 200"
    using checkTransaction_BelowMinimum_iff [OF assms(2-5)] by (simp add: minimumProbi_200)
  have "Verify cfg env req st = (Inl BelowMinimum, st) \<longleftrightarrow>
        checkTransaction cfg env req = Inl BelowMinimum"
  proof (cases "checkTransaction cfg env req")
    case (Inl e)
    then show ?thesis using assms(1) by (simp add: Verify_check_error)
  next
    case (Inr tb)
    obtain t' b' where "tb = (t', b')" by (cases tb)
    with Inr have "checkTransaction cfg env req = Inr (t', b')" by simp
    from Verify_past_checks [OF assms(1) this] Inr show ?thesis by auto
  qed
  with iff show ?thesis by (simp add: limit_def decimal_New_20_1)
qed

text \<open>
  The scenario of C4: balance 0, a transaction of 25 BAT, one grant of 25 BAT.
  The transaction is not below 20 BAT, and \<^verbatim>\<open>Verify\<close> fails with
  \<open>BelowMinimum\<close>.
\<close>

theorem Verify_BelowMinimum_200_witness:
  "Verify settings (fixture [(''t1'', batGrant ''g1'' ''p1'' (ToProbi 18 25))] 0
       (payment 25 ''settlement'')) (request [''t1'']) fresh
     = (Inl BelowMinimum, fresh) \<and>
   \<not> tProbi (payment 25 ''settlement'') < ToProbi 18 20"
proof -
  let ?env = "fixture [(''t1'', batGrant ''g1'' ''p1'' (ToProbi 18 25))] 0 (payment 25 ''settlement'')"
  let ?w = "\<lparr>Info = ReqWalletInfo (request [''t1'']), PubKey = [], PrivKey = []\<rparr>"
  have g: "decodeGrants ?env fresh (Grants (request [''t1''])) =
             Inr [batGrant ''g1'' ''p1'' (ToProbi 18 25)]"
    by (simp add: fixture_def request_def FromCompactJWS_def)
  have w: "GetWallet ?env (ReqWalletInfo (request [''t1''])) = Inr ?w"
    by (simp add: fixture_def)
  have b: "GetBalance ?env ?w (refreshBalance settings) = Inr \<lparr>SpendableProbi = 0\<rparr>"
    by (simp add: fixture_def)
  have t: "VerifyTransaction ?env ?w (Transaction (request [''t1''])) = Inr (payment 25 ''settlement'')"
    by (simp add: fixture_def)
  have c: "tAltCurrency (payment 25 ''settlement'') = BAT" by (simp add: payment_def)
  have lt: "tProbi (payment 25 ''settlement'') < ToProbi (BAT_scale ?env) 200"
    by (simp add: payment_def fixture_def ToProbi_def)
  have "\<not> tProbi (payment 25 ''settlement'') < ToProbi 18 20"
    by (simp add: payment_def ToProbi_def)
  with Verify_BelowMinimum_200 [OF g w b t c] lt show ?thesis by simp
qed

subsection \<open>C6: the shortfall check\<close>

text \<open>
  C6, as the code has it. \<^verbatim>\<open>Verify\<close> fails with \<open>NoShortfall\<close> if and only
  if the request reaches that check and fails it: the grants decode, the
  wallet, its balance and the transaction are obtained, the transaction is in
  BAT and not below the minimum, and its amount is strictly less than the
  spendable balance. Which grants were decoded plays no part; an amount equal
  to or above the balance passes the check.
\<close>

theorem Verify_NoShortfall_iff:
  "fst (Verify cfg env req st) = Inl NoShortfall \<longleftrightarrow>
   (\<exists>gs w b t. decodeGrants env st (Grants req) = Inr gs \<and>
      GetWallet env (ReqWalletInfo req) = Inr w \<and>
      GetBalance env w (refreshBalance cfg) = Inr b \<and>
      VerifyTransaction env w (Transaction req) = Inr t \<and>
      tAltCurrency t = BAT \<and> \<not> tProbi t < minimumProbi env \<and>
      tProbi t < SpendableProbi b)"
proof (cases "decodeGrants env st (Grants req)")
  case (Inl e)
  then have "fst (Verify cfg env req st) = Inl e" by (simp add: Verify_decode_error)
  moreover have "e \<noteq> NoShortfall" using decodeGrants_error [OF Inl] by auto
  ultimately show ?thesis using Inl by simp
next
  case (Inr gs)
  show ?thesis
  proof (cases "checkTransaction cfg env req")
    case (Inl e)
    then have "fst (Verify cfg env req st) = Inl e" using Inr by (simp add: Verify_check_error)
    then show ?thesis
      using Inr Inl checkTransaction_NoShortfall_iff [of cfg env req] by auto
  next
    case (Inr tb)
    obtain t b where tb: "tb = (t, b)" by (cases tb)
    have "fst (Verify cfg env req st) \<noteq> Inl NoShortfall"
      using Verify_past_checks [OF \<open>decodeGrants env st (Grants req) = Inr gs\<close>] Inr tb by simp
    moreover have "checkTransaction cfg env req \<noteq> Inl NoShortfall" using Inr by simp
    ultimately show ?thesis
      using checkTransaction_NoShortfall_iff [of cfg env req] by simp
  qed
qed

text \<open>A transaction of 250 BAT from a wallet that holds 300 BAT.\<close>

theorem Verify_NoShortfall_iff_witness:
  "fst (Verify settings (fixture [] (ToProbi 18 300) (payment 250 ''settlement'')) (request []) fresh)
     = Inl NoShortfall"
proof -
  let ?env = "fixture [] (ToProbi 18 300) (payment 250 ''settlement'')"
  have "\<exists>gs w b t. decodeGrants ?env fresh (Grants (request [])) = Inr gs \<and>
      GetWallet ?env (ReqWalletInfo (request [])) = Inr w \<and>
      GetBalance ?env w (refreshBalance settings) = Inr b \<and>
      VerifyTransaction ?env w (Transaction (request [])) = Inr t \<and>
      tAltCurrency t = BAT \<and> \<not> tProbi t < minimumProbi ?env \<and>
      tProbi t < SpendableProbi b"
    by (simp add: fixture_def request_def payment_def minimumProbi_200 ToProbi_def)
  then show ?thesis
    using Verify_NoShortfall_iff [of settings ?env "request []" fresh] by simp
qed

text \<open>
  C6 as stated fails on a transaction of 5 BAT from a wallet that holds 10
  BAT: the amount is below the balance, and the failure is \<open>BelowMinimum\<close>,
  from the check that comes first.
\<close>

theorem Verify_NoShortfall_counterexample:
  "tProbi (payment 5 ''settlement'') < ToProbi 18 10 \<and>
   Verify settings (fixture [] (ToProbi 18 10) (payment 5 ''settlement'')) (request []) fresh
     = (Inl BelowMinimum, fresh)"
  by (simp add: Verify_def checkTransaction_def fixture_def request_def payment_def
      minimumProbi_200 ToProbi_def)

subsection \<open>C7: the destination check\<close>

text \<open>
  C7, as the code has it. When the wallet is resolved and the transaction
  decodes to a destination other than the settlement address, \<^verbatim>\<open>Verify\<close>
  fails and returns the state it was given, the claim store untouched. The
  failure is \<open>WrongDestination\<close> exactly when the grants decode, the balance is
  obtained, and the transaction is in BAT, not below the minimum and not
  below the balance; otherwise it is the failure of the earlier step.
\<close>

theorem Verify_WrongDestination:
  assumes "GetWallet env (ReqWalletInfo req) = Inr w"
      and "VerifyTransaction env w (Transaction req) = Inr t"
      and "Destination t \<noteq> SettlementDestination cfg"
  shows "\<exists>e. Verify cfg env req st = (Inl e, st) \<and>
           (e = WrongDestination \<longleftrightarrow>
              (\<exists>gs b. decodeGrants env st (Grants req) = Inr gs \<and>
                   GetBalance env w (refreshBalance cfg) = Inr b \<and> tAltCurrency t = BAT \<and>
                   \<not> tProbi t < minimumProbi env \<and> \<not> tProbi t < SpendableProbi b))"
proof (cases "decodeGrants env st (Grants req)")
  case (Inl e)
  then have "Verify cfg env req st = (Inl e, st)" by (rule Verify_decode_error)
  moreover have "e \<noteq> WrongDestination" using decodeGrants_error [OF Inl] by auto
  ultimately show ?thesis using Inl by simp
next
  case (Inr gs)
  from checkTransaction_wrong_destination [OF assms] obtain e where
    e: "checkTransaction cfg env req = Inl e"
    and iff: "e = WrongDestination \<longleftrightarrow>
              (\<exists>b. GetBalance env w (refreshBalance cfg) = Inr b \<and> tAltCurrency t = BAT \<and>
                   \<not> tProbi t < minimumProbi env \<and> \<not> tProbi t < SpendableProbi b)"
    by blast
  have "Verify cfg env req st = (Inl e, st)" using Inr e by (rule Verify_check_error)
  then show ?thesis using iff Inr by simp
qed

text \<open>A transaction of 250 BAT to another address, with one grant of 250 BAT.\<close>

theorem Verify_WrongDestination_witness:
  "Destination (payment 250 ''elsewhere'') \<noteq> SettlementDestination settings \<and>
   Verify settings (fixture [(''t1'', batGrant ''g1'' ''p1'' (ToProbi 18 250))] 0
       (payment 250 ''elsewhere'')) (request [''t1'']) fresh
     = (Inl WrongDestination, fresh)"
proof -
  let ?env = "fixture [(''t1'', batGrant ''g1'' ''p1'' (ToProbi 18 250))] 0 (payment 250 ''elsewhere'')"
  let ?w = "\<lparr>Info = ReqWalletInfo (request [''t1'']), PubKey = [], PrivKey = []\<rparr>"
  have w: "GetWallet ?env (ReqWalletInfo (request [''t1''])) = Inr ?w"
    by (simp add: fixture_def)
  have t: "VerifyTransaction ?env ?w (Transaction (request [''t1''])) = Inr (payment 250 ''elsewhere'')"
    by (simp add: fixture_def)
  have d: "Destination (payment 250 ''elsewhere'') \<noteq> SettlementDestination settings"
    by (simp add: payment_def settings_def)
  have ok: "\<exists>gs b. decodeGrants ?env fresh (Grants (request [''t1''])) = Inr gs \<and>
      GetBalance ?env ?w (refreshBalance settings) = Inr b \<and>
      tAltCurrency (payment 250 ''elsewhere'') = BAT \<and>
      \<not> tProbi (payment 250 ''elsewhere'') < minimumProbi ?env \<and>
      \<not> tProbi (payment 250 ''elsewhere'') < SpendableProbi b"
    by (simp add: fixture_def request_def payment_def minimumProbi_200 ToProbi_def
        FromCompactJWS_def)
  from Verify_WrongDestination [OF w t d, of fresh] ok d show ?thesis by auto
qed

text \<open>
  C7 as stated fails on a transaction of 5 BAT to another address: the
  failure is \<open>BelowMinimum\<close>, from the check that comes first.
\<close>

theorem Verify_WrongDestination_counterexample:
  "Destination (payment 5 ''elsewhere'') \<noteq> SettlementDestination settings \<and>
   Verify settings (fixture [] 0 (payment 5 ''elsewhere'')) (request []) fresh
     = (Inl BelowMinimum, fresh)"
  by (simp add: Verify_def checkTransaction_def fixture_def request_def payment_def
      settings_def minimumProbi_200 ToProbi_def)

subsection \<open>The claim loop\<close>

lemma set_Add_mono: "set_Add env name x s = (r, s') \<Longrightarrow> s k \<subseteq> s' k"
  by (auto simp: set_Add_def split: option.splits if_splits)

lemma set_Add_True:
  "set_Add env name x s = (Inr True, s') \<Longrightarrow>
   AddFailure env name x = None \<and> x \<notin> s name \<and> s' = s(name := insert x (s name))"
  by (auto simp: set_Add_def split: option.splits if_splits)

lemma set_Add_False:
  "set_Add env name x s = (Inr False, s') \<Longrightarrow>
   AddFailure env name x = None \<and> x \<in> s name \<and> s' = s"
  by (auto simp: set_Add_def split: option.splits if_splits)

lemma set_Add_present:
  "AddFailure env name x = None \<Longrightarrow> x \<in> s name \<Longrightarrow> set_Add env name x s = (Inr False, s)"
  by (simp add: set_Add_def)



text \<open>One round of the loop that succeeds.\<close>

lemma claimGrants_Cons_None:
  assumes "claimGrants env w (g # rest) s = (None, s')"
  shows "\<exists>s1 s2. GetSetDatastore env (grantsKey g) = None \<and>
           GetSetDatastore env (walletsKey g) = None \<and>
           set_Add env (grantsKey g) (GrantId g) s = (Inr True, s1) \<and>
           set_Add env (walletsKey g) w s1 = (Inr True, s2) \<and>
           claimGrants env w rest s2 = (None, s')"
proof -
  from assms have g1: "GetSetDatastore env (grantsKey g) = None"
    by (cases "GetSetDatastore env (grantsKey g)") simp_all
  from assms g1 have g2: "GetSetDatastore env (walletsKey g) = None"
    by (cases "GetSetDatastore env (walletsKey g)") simp_all
  obtain r1 s1 where a1: "set_Add env (grantsKey g) (GrantId g) s = (r1, s1)"
    by (cases "set_Add env (grantsKey g) (GrantId g) s")
  from assms g1 g2 a1 have r1: "r1 = Inr True"
    by (cases r1) (auto split: if_splits)
  obtain r2 s2 where a2: "set_Add env (walletsKey g) w s1 = (r2, s2)"
    by (cases "set_Add env (walletsKey g) w s1")
  from assms g1 g2 a1 r1 a2 have r2: "r2 = Inr True"
    by (cases r2) (auto split: if_splits)
  from assms g1 g2 a1 r1 a2 r2 have "claimGrants env w rest s2 = (None, s')" by simp
  with g1 g2 a1 r1 a2 r2 show ?thesis by blast
qed

lemma claimGrants_mono: "claimGrants env w gs s = (r, s') \<Longrightarrow> s k \<subseteq> s' k"
proof (induction gs arbitrary: s)
  case Nil
  then show ?case by simp
next
  case (Cons g gs)
  show ?case
  proof (cases "GetSetDatastore env (grantsKey g) = None \<and> GetSetDatastore env (walletsKey g) = None")
    case False
    with Cons.prems show ?thesis by (auto split: option.splits)
  next
    case True
    obtain r1 s1 where a1: "set_Add env (grantsKey g) (GrantId g) s = (r1, s1)"
      by (cases "set_Add env (grantsKey g) (GrantId g) s")
    have m1: "s k \<subseteq> s1 k" using a1 by (rule set_Add_mono)
    show ?thesis
    proof (cases "r1 = Inr True")
      case False
      with Cons.prems True a1 have "s' = s1" by (cases r1) (auto split: if_splits)
      with m1 show ?thesis by simp
    next
      case r1: True
      obtain r2 s2 where a2: "set_Add env (walletsKey g) w s1 = (r2, s2)"
        by (cases "set_Add env (walletsKey g) w s1")
      have m2: "s1 k \<subseteq> s2 k" using a2 by (rule set_Add_mono)
      show ?thesis
      proof (cases "r2 = Inr True")
        case False
        with Cons.prems True a1 r1 a2 have "s' = s2" by (cases r2) (auto split: if_splits)
        with m1 m2 show ?thesis by auto
      next
        case r2: True
        with Cons.prems True a1 r1 a2 have "claimGrants env w gs s2 = (r, s')" by simp
        then have "s2 k \<subseteq> s' k" by (rule Cons.IH)
        with m1 m2 show ?thesis by auto
      qed
    qed
  qed
qed

lemma claimGrants_committed:
  "claimGrants env w gs s = (None, s') \<Longrightarrow>
   \<forall>p\<in>set gs. GrantId p \<in> s' (grantsKey p) \<and> w \<in> s' (walletsKey p)"
proof (induction gs arbitrary: s)
  case Nil
  then show ?case by simp
next
  case (Cons g gs)
  from claimGrants_Cons_None [OF Cons.prems] obtain s1 s2 where
    a1: "set_Add env (grantsKey g) (GrantId g) s = (Inr True, s1)"
    and a2: "set_Add env (walletsKey g) w s1 = (Inr True, s2)"
    and rest: "claimGrants env w gs s2 = (None, s')" by blast
  have "GrantId g \<in> s1 (grantsKey g)" using set_Add_True [OF a1] by simp
  then have "GrantId g \<in> s2 (grantsKey g)" using set_Add_mono [OF a2] by blast
  then have g: "GrantId g \<in> s' (grantsKey g)" using claimGrants_mono [OF rest] by blast
  have "w \<in> s2 (walletsKey g)" using set_Add_True [OF a2] by simp
  then have w: "w \<in> s' (walletsKey g)" using claimGrants_mono [OF rest] by blast
  from Cons.IH [OF rest] g w show ?case by simp
qed

lemma claimGrants_append:
  "claimGrants env w pre s = (None, s1) \<Longrightarrow>
   claimGrants env w (pre @ rest) s = claimGrants env w rest s1"
proof (induction pre arbitrary: s)
  case Nil
  then show ?case by simp
next
  case (Cons g pre)
  from claimGrants_Cons_None [OF Cons.prems] obtain t1 t2 where
    g1: "GetSetDatastore env (grantsKey g) = None"
    and g2: "GetSetDatastore env (walletsKey g) = None"
    and a1: "set_Add env (grantsKey g) (GrantId g) s = (Inr True, t1)"
    and a2: "set_Add env (walletsKey g) w t1 = (Inr True, t2)"
    and rest: "claimGrants env w pre t2 = (None, s1)" by blast
  from Cons.IH [OF rest] g1 g2 a1 a2 show ?case by simp
qed

lemma claimGrants_round:
  assumes "claimGrants env w pre s = (None, s1)"
      and "GetSetDatastore env (grantsKey g) = None"
      and "GetSetDatastore env (walletsKey g) = None"
  shows "(\<forall>p\<in>set pre. GrantId p \<in> s1 (grantsKey p) \<and> w \<in> s1 (walletsKey p)) \<and>
         (set_Add env (grantsKey g) (GrantId g) s1 = (Inr False, s1) \<longrightarrow>
            claimGrants env w (pre @ g # post) s = (Some (AlreadyRedeemed (GrantId g)), s1)) \<and>
         (\<forall>s2. set_Add env (grantsKey g) (GrantId g) s1 = (Inr True, s2) \<and>
               set_Add env (walletsKey g) w s2 = (Inr False, s2) \<longrightarrow>
            claimGrants env w (pre @ g # post) s = (Some (AlreadyRedeemedByWallet w), s2) \<and>
            GrantId g \<in> s2 (grantsKey g) \<and>
            (\<forall>p\<in>set pre. GrantId p \<in> s2 (grantsKey p) \<and> w \<in> s2 (walletsKey p))) \<and>
         (\<forall>s2 s3. set_Add env (grantsKey g) (GrantId g) s1 = (Inr True, s2) \<and>
               set_Add env (walletsKey g) w s2 = (Inr True, s3) \<longrightarrow>
            claimGrants env w (pre @ g # post) s = claimGrants env w post s3)"
proof -
  have app: "claimGrants env w (pre @ g # post) s = claimGrants env w (g # post) s1"
    using assms(1) by (rule claimGrants_append)
  have committed: "\<forall>p\<in>set pre. GrantId p \<in> s1 (grantsKey p) \<and> w \<in> s1 (walletsKey p)"
    using assms(1) by (rule claimGrants_committed)
  have first: "claimGrants env w (pre @ g # post) s = (Some (AlreadyRedeemed (GrantId g)), s1)"
    if "set_Add env (grantsKey g) (GrantId g) s1 = (Inr False, s1)"
    using that assms(2,3) by (simp add: app)
  have second: "claimGrants env w (pre @ g # post) s = (Some (AlreadyRedeemedByWallet w), s2) \<and>
            GrantId g \<in> s2 (grantsKey g) \<and>
            (\<forall>p\<in>set pre. GrantId p \<in> s2 (grantsKey p) \<and> w \<in> s2 (walletsKey p))"
    if a1: "set_Add env (grantsKey g) (GrantId g) s1 = (Inr True, s2)"
      and a2: "set_Add env (walletsKey g) w s2 = (Inr False, s2)" for s2
  proof -
    have "claimGrants env w (pre @ g # post) s = (Some (AlreadyRedeemedByWallet w), s2)"
      using a1 a2 assms(2,3) by (simp add: app)
    moreover have "GrantId g \<in> s2 (grantsKey g)" using set_Add_True [OF a1] by simp
    moreover have "\<forall>p\<in>set pre. GrantId p \<in> s2 (grantsKey p) \<and> w \<in> s2 (walletsKey p)"
      using committed set_Add_mono [OF a1] by blast
    ultimately show ?thesis by simp
  qed
  have third: "claimGrants env w (pre @ g # post) s = claimGrants env w post s3"
    if "set_Add env (grantsKey g) (GrantId g) s1 = (Inr True, s2)"
      and "set_Add env (walletsKey g) w s2 = (Inr True, s3)" for s2 s3
    using that assms(2,3) by (simp add: app)
  from committed first second third show ?thesis by blast
qed

lemma Verify_claims:
  assumes "decodeGrants env st (Grants req) = Inr gs"
      and "checkTransaction cfg env req = Inr (t, b)"
      and "selectGrants (tProbi t - SpendableProbi b) gs = Inr tot"
      and "claimGrants env (ProviderId (ReqWalletInfo req)) (sortGrants gs) (claims st) = (r, s)"
  shows "Verify cfg env req st =
           (case r of
              Some e \<Rightarrow> Inl e
            | None \<Rightarrow> Inr \<lparr>tAltCurrency = BAT, tProbi = tot,
                            Destination = ProviderId (ReqWalletInfo req)\<rparr>,
            st\<lparr>claims := s\<rparr>)"
  using assms by (simp add: Verify_def split: option.splits)

lemma Verify_Inr:
  assumes "Verify cfg env req st = (Inr r, st')"
  shows "\<exists>gs t b tot s. decodeGrants env st (Grants req) = Inr gs \<and>
           checkTransaction cfg env req = Inr (t, b) \<and>
           selectGrants (tProbi t - SpendableProbi b) gs = Inr tot \<and>
           claimGrants env (ProviderId (ReqWalletInfo req)) (sortGrants gs) (claims st) = (None, s) \<and>
           st' = st\<lparr>claims := s\<rparr>"
  using assms
  by (auto simp: Verify_def split: sum.splits prod.splits option.splits)

lemma Verify_claims_round:
  assumes "decodeGrants env st (Grants req) = Inr gs"
      and "checkTransaction cfg env req = Inr (t, b)"
      and "selectGrants (tProbi t - SpendableProbi b) gs = Inr tot"
      and "sortGrants gs = pre @ g # post"
      and "claimGrants env (ProviderId (ReqWalletInfo req)) pre (claims st) = (None, s1)"
      and "GetSetDatastore env (grantsKey g) = None"
      and "GetSetDatastore env (walletsKey g) = None"
  shows "(\<forall>p\<in>set pre. GrantId p \<in> s1 (grantsKey p) \<and>
             ProviderId (ReqWalletInfo req) \<in> s1 (walletsKey p)) \<and>
         (set_Add env (grantsKey g) (GrantId g) s1 = (Inr False, s1) \<longrightarrow>
            Verify cfg env req st = (Inl (AlreadyRedeemed (GrantId g)), st\<lparr>claims := s1\<rparr>)) \<and>
         (\<forall>s2. set_Add env (grantsKey g) (GrantId g) s1 = (Inr True, s2) \<and>
               set_Add env (walletsKey g) (ProviderId (ReqWalletInfo req)) s2 = (Inr False, s2) \<longrightarrow>
            Verify cfg env req st =
              (Inl (AlreadyRedeemedByWallet (ProviderId (ReqWalletInfo req))), st\<lparr>claims := s2\<rparr>) \<and>
            GrantId g \<in> s2 (grantsKey g) \<and>
            (\<forall>p\<in>set pre. GrantId p \<in> s2 (grantsKey p) \<and>
                ProviderId (ReqWalletInfo req) \<in> s2 (walletsKey p))) \<and>
         (\<forall>s2 s3. set_Add env (grantsKey g) (GrantId g) s1 = (Inr True, s2) \<and>
               set_Add env (walletsKey g) (ProviderId (ReqWalletInfo req)) s2 = (Inr True, s3) \<longrightarrow>
            claimGrants env (ProviderId (ReqWalletInfo req)) (sortGrants gs) (claims st) =
              claimGrants env (ProviderId (ReqWalletInfo req)) post s3)"
proof -
  let ?w = "ProviderId (ReqWalletInfo req)"
  note loop = claimGrants_round [OF assms(5-7), of post]
  have v: "Verify cfg env req st = (Inl e, st\<lparr>claims := s\<rparr>)"
    if "claimGrants env ?w (pre @ g # post) (claims st) = (Some e, s)" for e s
    using Verify_claims [OF assms(1-3), of "Some e" s] that assms(4) by simp
  from loop have committed: "\<forall>p\<in>set pre. GrantId p \<in> s1 (grantsKey p) \<and> ?w \<in> s1 (walletsKey p)"
    by blast
  have first: "Verify cfg env req st = (Inl (AlreadyRedeemed (GrantId g)), st\<lparr>claims := s1\<rparr>)"
    if "set_Add env (grantsKey g) (GrantId g) s1 = (Inr False, s1)"
    using loop that by (intro v) blast
  have second: "Verify cfg env req st = (Inl (AlreadyRedeemedByWallet ?w), st\<lparr>claims := s2\<rparr>) \<and>
            GrantId g \<in> s2 (grantsKey g) \<and>
            (\<forall>p\<in>set pre. GrantId p \<in> s2 (grantsKey p) \<and> ?w \<in> s2 (walletsKey p))"
    if a: "set_Add env (grantsKey g) (GrantId g) s1 = (Inr True, s2)"
          "set_Add env (walletsKey g) ?w s2 = (Inr False, s2)" for s2
  proof -
    from loop a have l: "claimGrants env ?w (pre @ g # post) (claims st) =
          (Some (AlreadyRedeemedByWallet ?w), s2) \<and>
        GrantId g \<in> s2 (grantsKey g) \<and>
        (\<forall>p\<in>set pre. GrantId p \<in> s2 (grantsKey p) \<and> ?w \<in> s2 (walletsKey p))"
      by blast
    then have "Verify cfg env req st = (Inl (AlreadyRedeemedByWallet ?w), st\<lparr>claims := s2\<rparr>)"
      by (intro v) simp
    with l show ?thesis by simp
  qed
  have third: "claimGrants env ?w (sortGrants gs) (claims st) = claimGrants env ?w post s3"
    if "set_Add env (grantsKey g) (GrantId g) s1 = (Inr True, s2)"
       "set_Add env (walletsKey g) ?w s2 = (Inr True, s3)" for s2 s3
    using loop that assms(4) by simp
  from committed first second third show ?thesis by blast
qed

subsection \<open>C3: the two adds per grant, and no compensation\<close>

text \<open>
  C3. Let \<^verbatim>\<open>Verify\<close> reach the claim loop, let the grants \<open>pre\<close> before
  \<open>g\<close> in sorted order be claimed, leaving the store \<open>s1\<close>, and let the two
  sets of \<open>g\<close>'s promotion be reachable. Then every grant of \<open>pre\<close> and the
  wallet under its promotion are in \<open>s1\<close>. If the add of the grant id to the
  promotion's grant set reports it present, \<^verbatim>\<open>Verify\<close> fails with
  \<open>AlreadyRedeemed\<close> and returns \<open>s1\<close>. If that add succeeds and the add of the
  wallet id to the promotion's wallet set reports it present, \<^verbatim>\<open>Verify\<close>
  fails with \<open>AlreadyRedeemedByWallet\<close> and returns the store with the claims
  of \<open>pre\<close> and the grant id of \<open>g\<close> in it: nothing is taken back. If both
  adds succeed, the loop goes on with the grants after \<open>g\<close>.
\<close>

theorem Verify_abort_keeps_claims:
  assumes "decodeGrants env st (Grants req) = Inr gs"
      and "checkTransaction cfg env req = Inr (t, b)"
      and "selectGrants (tProbi t - SpendableProbi b) gs = Inr tot"
      and "sortGrants gs = pre @ g # post"
      and "claimGrants env (ProviderId (ReqWalletInfo req)) pre (claims st) = (None, s1)"
      and "GetSetDatastore env (grantsKey g) = None"
      and "GetSetDatastore env (walletsKey g) = None"
  shows "(\<forall>p\<in>set pre. GrantId p \<in> s1 (grantsKey p) \<and>
             ProviderId (ReqWalletInfo req) \<in> s1 (walletsKey p)) \<and>
         (set_Add env (grantsKey g) (GrantId g) s1 = (Inr False, s1) \<longrightarrow>
            Verify cfg env req st = (Inl (AlreadyRedeemed (GrantId g)), st\<lparr>claims := s1\<rparr>)) \<and>
         (\<forall>s2. set_Add env (grantsKey g) (GrantId g) s1 = (Inr True, s2) \<and>
               set_Add env (walletsKey g) (ProviderId (ReqWalletInfo req)) s2 = (Inr False, s2) \<longrightarrow>
            Verify cfg env req st =
              (Inl (AlreadyRedeemedByWallet (ProviderId (ReqWalletInfo req))), st\<lparr>claims := s2\<rparr>) \<and>
            GrantId g \<in> s2 (grantsKey g) \<and>
            (\<forall>p\<in>set pre. GrantId p \<in> s2 (grantsKey p) \<and>
                ProviderId (ReqWalletInfo req) \<in> s2 (walletsKey p))) \<and>
         (\<forall>s2 s3. set_Add env (grantsKey g) (GrantId g) s1 = (Inr True, s2) \<and>
               set_Add env (walletsKey g) (ProviderId (ReqWalletInfo req)) s2 = (Inr True, s3) \<longrightarrow>
            claimGrants env (ProviderId (ReqWalletInfo req)) (sortGrants gs) (claims st) =
              claimGrants env (ProviderId (ReqWalletInfo req)) post s3)"
  using assms by (rule Verify_claims_round)

text \<open>The worked examples, step by step.\<close>

lemma fixture_FromCompactJWS:
  "FromCompactJWS (fixture tokens spendable tx) st s =
     (case map_of tokens s of
        None \<Rightarrow> Inl (External (Failure ''json''))
      | Some grant \<Rightarrow> Inr grant)"
  by (simp add: fixture_def FromCompactJWS_def split: option.splits)

lemma fixture_payment_ok:
  "200 \<le> bat \<Longrightarrow>
   checkTransaction settings (fixture tokens 0 (payment bat ''settlement'')) (request toks) =
     Inr (payment bat ''settlement'', \<lparr>SpendableProbi = 0\<rparr>)"
  by (simp add: checkTransaction_def fixture_def settings_def payment_def minimumProbi_200
      ToProbi_def IsInvalidSignature_def IsInsufficientBalance_def)

lemma sort_two_grants:
  "sortGrants [batGrant ''g1'' ''p1'' (ToProbi 18 200), batGrant ''g2'' pid (ToProbi 18 100)] =
     [] @ batGrant ''g1'' ''p1'' (ToProbi 18 200) # [batGrant ''g2'' pid (ToProbi 18 100)]"
  by (simp add: sortGrants_def sort_Sort_def Reverse_def ByProbi_Less_def batGrant_def ToProbi_def)

lemma select_two_grants:
  "selectGrants (tProbi (payment 300 ''settlement'') - SpendableProbi \<lparr>SpendableProbi = 0\<rparr>)
     [batGrant ''g1'' ''p1'' (ToProbi 18 200), batGrant ''g2'' pid (ToProbi 18 100)] =
     Inr (ToProbi 18 300)"
  by (simp add: selectGrants_def sortGrants_def sort_Sort_def Reverse_def ByProbi_Less_def
      batGrant_def ToProbi_def payment_def decimal_New_0_1)

text \<open>
  Grants \<open>g1\<close> (200 BAT, promotion \<open>p1\<close>) and \<open>g2\<close> (100 BAT, promotion
  \<open>p2\<close>) for a transaction of 300 BAT, when \<open>g2\<close> was redeemed before: the
  call fails on \<open>g2\<close>, and the claims of \<open>g1\<close> and of the wallet under \<open>p1\<close>
  stay in the store.
\<close>

theorem Verify_abort_keeps_claims_witness:
  "Verify settings
     (fixture [(''t1'', batGrant ''g1'' ''p1'' (ToProbi 18 200)),
               (''t2'', batGrant ''g2'' ''p2'' (ToProbi 18 100))] 0 (payment 300 ''settlement''))
     (request [''t1'', ''t2''])
     (fresh\<lparr>claims := (\<lambda>name. {})(''promotion:p2:grants'' := {''g2''})\<rparr>) =
   (Inl (AlreadyRedeemed ''g2''),
    fresh\<lparr>claims := (\<lambda>name. {})(''promotion:p2:grants'' := {''g2''},
                                 ''promotion:p1:grants'' := {''g1''},
                                 ''promotion:p1:wallets'' := {''w1''})\<rparr>)"
proof -
  let ?g1 = "batGrant ''g1'' ''p1'' (ToProbi 18 200)"
  let ?g2 = "batGrant ''g2'' ''p2'' (ToProbi 18 100)"
  let ?env = "fixture [(''t1'', ?g1), (''t2'', ?g2)] 0 (payment 300 ''settlement'')"
  let ?req = "request [''t1'', ''t2'']"
  let ?s0 = "(\<lambda>name. {})(''promotion:p2:grants'' := {''g2''})"
  let ?st = "fresh\<lparr>claims := ?s0\<rparr>"
  let ?s1 = "?s0(''promotion:p1:grants'' := {''g1''}, ''promotion:p1:wallets'' := {''w1''})"
  have d: "decodeGrants ?env ?st (Grants ?req) = Inr [?g1, ?g2]"
    by (simp add: request_def fixture_FromCompactJWS)
  have c: "checkTransaction settings ?env ?req =
             Inr (payment 300 ''settlement'', \<lparr>SpendableProbi = 0\<rparr>)"
    by (rule fixture_payment_ok) simp
  have s: "selectGrants (tProbi (payment 300 ''settlement'') - SpendableProbi \<lparr>SpendableProbi = 0\<rparr>)
             [?g1, ?g2] = Inr (ToProbi 18 300)"
    by (rule select_two_grants)
  have o: "sortGrants [?g1, ?g2] = [?g1] @ ?g2 # []"
    using sort_two_grants [of "''p2''"] by simp
  have p: "claimGrants ?env (ProviderId (ReqWalletInfo ?req)) [?g1] (claims ?st) = (None, ?s1)"
    by (simp add: fixture_def request_def fresh_def set_Add_def grantsKey_def walletsKey_def
        batGrant_def)
  have k1: "GetSetDatastore ?env (grantsKey ?g2) = None" by (simp add: fixture_def)
  have k2: "GetSetDatastore ?env (walletsKey ?g2) = None" by (simp add: fixture_def)
  have a: "set_Add ?env (grantsKey ?g2) (GrantId ?g2) ?s1 = (Inr False, ?s1)"
    by (simp add: fixture_def set_Add_def grantsKey_def batGrant_def)
  from Verify_abort_keeps_claims [OF d c s o p k1 k2, THEN conjunct2, THEN conjunct1, rule_format, OF a]
  show ?thesis by (simp add: batGrant_def)
qed



subsection \<open>C9: two grants of one promotion\<close>



lemma FromCompactJWS_claims:
  "FromCompactJWS env (st\<lparr>claims := s\<rparr>) token = FromCompactJWS env st token"
  by (simp add: FromCompactJWS_def split: sum.splits)

lemma decodeGrants_claims:
  "decodeGrants env (st\<lparr>claims := s\<rparr>) tokens = decodeGrants env st tokens"
  by (induction tokens) (simp_all add: FromCompactJWS_claims split: sum.splits)

lemma decodeGrants_length:
  "decodeGrants env st tokens = Inr gs \<Longrightarrow> length gs = length tokens"
  by (induction tokens arbitrary: gs) (auto split: sum.splits)

subsection \<open>C2: the two calls of Verify in Redeem\<close>

text \<open>
  C2, evaluated on the code. \<^verbatim>\<open>Redeem\<close> calls \<^verbatim>\<open>Verify\<close> twice. When the
  first call succeeds on a request with at least one grant and the
  collaborators answer the second call as they answered the first, the second
  call fails with \<open>AlreadyRedeemed\<close> for the first grant in sorted order, which
  the first call has just claimed, and \<^verbatim>\<open>Redeem\<close> returns that error.
\<close>

theorem Redeem_second_Verify_fails:
  assumes "Verify cfg env req st = (Inr t, st1)"
      and "Grants req \<noteq> []"
      and "decodeGrants env st (Grants req) = Inr gs"
  shows "Verify cfg env req st1 =
           (Inl (AlreadyRedeemed (GrantId (hd (sortGrants gs)))), st1) \<and>
         Redeem cfg env env env3 req st =
           (Returns (Some (AlreadyRedeemed (GrantId (hd (sortGrants gs))))), st1)"
proof -
  let ?w = "ProviderId (ReqWalletInfo req)"
  from Verify_Inr [OF assms(1)] assms(3) obtain tx b tot s where
    c: "checkTransaction cfg env req = Inr (tx, b)"
    and sel: "selectGrants (tProbi tx - SpendableProbi b) gs = Inr tot"
    and cl: "claimGrants env ?w (sortGrants gs) (claims st) = (None, s)"
    and st1: "st1 = st\<lparr>claims := s\<rparr>" by auto
  have "length (sortGrants gs) = length (Grants req)"
    using decodeGrants_length [OF assms(3)] by (simp add: length_sortGrants)
  with assms(2) obtain g rest where o: "sortGrants gs = g # rest"
    by (cases "sortGrants gs") auto
  from cl o have cl': "claimGrants env ?w (g # rest) (claims st) = (None, s)" by simp
  from claimGrants_Cons_None [OF cl'] obtain s1 where
    k1: "GetSetDatastore env (grantsKey g) = None"
    and k2: "GetSetDatastore env (walletsKey g) = None"
    and a1: "set_Add env (grantsKey g) (GrantId g) (claims st) = (Inr True, s1)" by blast
  have f: "AddFailure env (grantsKey g) (GrantId g) = None" using set_Add_True [OF a1] by simp
  have "GrantId g \<in> s (grantsKey g)" using claimGrants_committed [OF cl'] by simp
  with f have a: "set_Add env (grantsKey g) (GrantId g) s = (Inr False, s)"
    by (rule set_Add_present)
  have d1: "decodeGrants env st1 (Grants req) = Inr gs"
    using assms(3) by (simp add: st1 decodeGrants_claims)
  have o': "sortGrants gs = [] @ g # rest" using o by simp
  have p: "claimGrants env ?w [] (claims st1) = (None, s)" by (simp add: st1)
  from Verify_claims_round [OF d1 c sel o' p k1 k2, THEN conjunct2, THEN conjunct1,
      rule_format, OF a]
  have second: "Verify cfg env req st1 = (Inl (AlreadyRedeemed (GrantId g)), st1)"
    by (simp add: st1)
  then have "Redeem cfg env env env3 req st = (Returns (Some (AlreadyRedeemed (GrantId g))), st1)"
    using assms(1) by (simp add: Redeem_def)
  with second o show ?thesis by simp
qed

lemma fixture_one_grant_Verify:
  "Verify settings
     (fixture [(''t1'', batGrant ''g1'' ''p1'' (ToProbi 18 250))] 0 (payment 250 ''settlement''))
     (request [''t1'']) fresh =
   (Inr \<lparr>tAltCurrency = BAT, tProbi = ToProbi 18 250, Destination = ''w1''\<rparr>,
    fresh\<lparr>claims := (\<lambda>name. {})(''promotion:p1:grants'' := {''g1''},
                                 ''promotion:p1:wallets'' := {''w1''})\<rparr>)"
proof -
  let ?g1 = "batGrant ''g1'' ''p1'' (ToProbi 18 250)"
  let ?env = "fixture [(''t1'', ?g1)] 0 (payment 250 ''settlement'')"
  let ?req = "request [''t1'']"
  have d: "decodeGrants ?env fresh (Grants ?req) = Inr [?g1]"
    by (simp add: request_def fixture_FromCompactJWS)
  have c: "checkTransaction settings ?env ?req =
             Inr (payment 250 ''settlement'', \<lparr>SpendableProbi = 0\<rparr>)"
    by (rule fixture_payment_ok) simp
  have o: "sortGrants [?g1] = [?g1]" by (simp add: sortGrants_def sort_Sort_def)
  have s: "selectGrants (tProbi (payment 250 ''settlement'') - SpendableProbi \<lparr>SpendableProbi = 0\<rparr>)
             [?g1] = Inr (ToProbi 18 250)"
    by (simp add: selectGrants_def sortGrants_def sort_Sort_def decimal_New_0_1 payment_def
        batGrant_def ToProbi_def)
  have p: "claimGrants ?env (ProviderId (ReqWalletInfo ?req)) (sortGrants [?g1]) (claims fresh) =
      (None, (\<lambda>name. {})(''promotion:p1:grants'' := {''g1''}, ''promotion:p1:wallets'' := {''w1''}))"
    unfolding o
    by (simp add: fixture_def request_def fresh_def set_Add_def grantsKey_def walletsKey_def
        batGrant_def)
  from Verify_claims [OF d c s p] show ?thesis by (simp add: request_def)
qed

text \<open>A fresh request with one grant of 250 BAT for a transaction of 250 BAT.\<close>

theorem Redeem_second_Verify_fails_witness:
  "Grants (request [''t1'']) \<noteq> [] \<and>
   Redeem settings
     (fixture [(''t1'', batGrant ''g1'' ''p1'' (ToProbi 18 250))] 0 (payment 250 ''settlement''))
     (fixture [(''t1'', batGrant ''g1'' ''p1'' (ToProbi 18 250))] 0 (payment 250 ''settlement''))
     (fixture [(''t1'', batGrant ''g1'' ''p1'' (ToProbi 18 250))] 0 (payment 250 ''settlement''))
     (request [''t1'']) fresh =
   (Returns (Some (AlreadyRedeemed ''g1'')),
    fresh\<lparr>claims := (\<lambda>name. {})(''promotion:p1:grants'' := {''g1''},
                                 ''promotion:p1:wallets'' := {''w1''})\<rparr>)"
proof -
  let ?g1 = "batGrant ''g1'' ''p1'' (ToProbi 18 250)"
  let ?env = "fixture [(''t1'', ?g1)] 0 (payment 250 ''settlement'')"
  have n: "Grants (request [''t1'']) \<noteq> []" by (simp add: request_def)
  have d: "decodeGrants ?env fresh (Grants (request [''t1''])) = Inr [?g1]"
    by (simp add: request_def fixture_FromCompactJWS)
  have h: "GrantId (hd (sortGrants [?g1])) = ''g1''"
    by (simp add: sortGrants_def sort_Sort_def batGrant_def)
  from Redeem_second_Verify_fails [OF fixture_one_grant_Verify n d, of ?env] n h
  show ?thesis by simp
qed

subsection \<open>C5: the custodial wallet after InitGrantService\<close>

text \<open>
  C5, evaluated on the code. Whatever \<^verbatim>\<open>InitGrantService\<close> returns, the
  package variable \<^verbatim>\<open>grantWallet\<close> is what it was before the call: the wallet
  with the decoded keys is a local of the function. The package variable
  \<^verbatim>\<open>grantPublicKey\<close>, assigned with \<^verbatim>\<open>=\<close>, does get the decoded key.
\<close>

theorem InitGrantService_grantWallet_unchanged:
  "grantWallet (snd (InitGrantService cfg env st)) = grantWallet st \<and>
   grantPublicKey (snd (InitGrantService cfg env st)) =
     hex_DecodeString env (GrantSignatorPublicKeyHex cfg)"
  by (simp add: InitGrantService_def Let_def split: sum.splits)

text \<open>At process start the call returns no error and leaves \<^verbatim>\<open>grantWallet\<close> nil.\<close>

theorem InitGrantService_grantWallet_unchanged_witness:
  "fst (InitGrantService settings (fixture [] 0 (payment 0 [])) fresh) = None \<and>
   grantWallet (snd (InitGrantService settings (fixture [] 0 (payment 0 [])) fresh)) = None \<and>
   grantPublicKey (snd (InitGrantService settings (fixture [] 0 (payment 0 [])) fresh)) = ''aa''"
proof -
  have "fst (InitGrantService settings (fixture [] 0 (payment 0 [])) fresh) = None"
    by (simp add: InitGrantService_def settings_def fixture_def)
  moreover have "grantWallet fresh = None" by (simp add: fresh_def)
  moreover have "hex_DecodeString (fixture [] 0 (payment 0 [])) (GrantSignatorPublicKeyHex settings) = ''aa''"
    by (simp add: fixture_def settings_def)
  ultimately show ?thesis
    using InitGrantService_grantWallet_unchanged [of settings "fixture [] 0 (payment 0 [])" fresh]
    by simp
qed

lemma Redeem_NilTxInfo_iff:
  "fst (Redeem cfg env1 env2 env3 req st) = Panics NilTxInfo \<longleftrightarrow>
   (\<exists>e st1 t st2 w. Verify cfg env1 req st = (Inl e, st1) \<and>
       Verify cfg env2 req st1 = (Inr t, st2) \<and>
       GetWallet env3 (ReqWalletInfo req) = Inr w)"
  by (auto simp: Redeem_def split: prod.splits sum.splits option.splits)

lemma fixture_transient_Verify:
  "Verify settings
     ((fixture [(''t1'', batGrant ''g1'' ''p1'' (ToProbi 18 250))] 0 (payment 250 ''settlement''))
        \<lparr>GetWallet := \<lambda>info. Inl (Failure ''timeout'')\<rparr>)
     (request [''t1'']) fresh =
   (Inl (External (Failure ''timeout'')), fresh)"
proof -
  let ?env = "(fixture [(''t1'', batGrant ''g1'' ''p1'' (ToProbi 18 250))] 0 (payment 250 ''settlement''))
        \<lparr>GetWallet := \<lambda>info. Inl (Failure ''timeout'')\<rparr>"
  have "checkTransaction settings ?env (request [''t1'']) = Inl (External (Failure ''timeout''))"
    by (simp add: checkTransaction_def)
  then show ?thesis
    by (cases "decodeGrants ?env fresh (Grants (request [''t1'']))")
       (simp_all add: Verify_def fixture_def FromCompactJWS_def request_def)
qed

lemma Redeem_second_error:
  "Verify cfg env1 req st = (first, st1) \<Longrightarrow> Verify cfg env2 req st1 = (Inl err, st2) \<Longrightarrow>
   Redeem cfg env1 env2 env3 req st = (Returns (Some err), st2)"
  by (simp add: Redeem_def)

lemma Redeem_transfer:
  "Verify cfg env1 req st = (Inr txInfo, st1) \<Longrightarrow> Verify cfg env2 req st1 = (Inr second, st2) \<Longrightarrow>
   GetWallet env3 (ReqWalletInfo req) = Inr userWallet \<Longrightarrow> grantWallet st2 = Some custodial \<Longrightarrow>
   Redeem cfg env1 env2 env3 req st =
     (case Transfer env3 custodial (tAltCurrency txInfo) (tProbi txInfo) (Destination txInfo) of
        Inl err \<Rightarrow> Returns (Some (External err))
      | Inr receipt \<Rightarrow>
          (case SubmitTransaction env3 userWallet (Transaction req) of
             Inl err \<Rightarrow> Returns (Some (External err))
           | Inr settled \<Rightarrow> Returns None),
      st2)"
  by (simp add: Redeem_def split: sum.splits)

lemma fixture_no_grants_Verify:
  "Verify settings (fixture [] 0 (payment 250 ''settlement'')) (request [])
     (fresh\<lparr>grantWallet := Some custodial\<rparr>) =
   (Inr \<lparr>tAltCurrency = BAT, tProbi = 0, Destination = ''w1''\<rparr>,
    fresh\<lparr>grantWallet := Some custodial\<rparr>)"
proof -
  let ?env = "fixture [] 0 (payment 250 ''settlement'')"
  let ?st = "fresh\<lparr>grantWallet := Some custodial\<rparr>"
  have d: "decodeGrants ?env ?st (Grants (request [])) = Inr []"
    by (simp add: request_def)
  have c: "checkTransaction settings ?env (request []) =
             Inr (payment 250 ''settlement'', \<lparr>SpendableProbi = 0\<rparr>)"
    by (rule fixture_payment_ok) simp
  have o: "sortGrants [] = []" by (simp add: sortGrants_def sort_Sort_def)
  have s: "selectGrants (tProbi (payment 250 ''settlement'') - SpendableProbi \<lparr>SpendableProbi = 0\<rparr>)
             [] = Inr 0"
    by (simp add: selectGrants_def o decimal_New_0_1)
  have p: "claimGrants ?env (ProviderId (ReqWalletInfo (request []))) (sortGrants []) (claims ?st) =
             (None, claims ?st)"
    by (simp add: o)
  from Verify_claims [OF d c s p] show ?thesis by (simp add: request_def)
qed


subsection \<open>C10: the transaction info of the first call\<close>

text \<open>
  C10. In \<^verbatim>\<open>Redeem\<close> the error that gates continuation is the second
  call's: when the second call of \<^verbatim>\<open>Verify\<close> fails, \<^verbatim>\<open>Redeem\<close> returns its
  error whatever the first call returned. The transaction info is the first
  call's: when both calls succeed, the wallet is resolved and the custodial
  wallet is set, the custodial \<^verbatim>\<open>Transfer\<close> is called with the asset, the
  probi and the destination of the first call's info, and its result and that
  of the settlement submission decide what \<^verbatim>\<open>Redeem\<close> returns.
  \<^verbatim>\<open>Redeem\<close> dereferences a nil \<^verbatim>\<open>txInfo\<close> at the transfer step exactly
  when the first call fails, the second succeeds and the wallet is resolved;
  so the transfer step is free of it only when the first call succeeded. Such
  an execution exists.
\<close>

theorem Redeem_nil_txInfo:
  "(\<forall>first st1 err st2.
       Verify cfg env1 req st = (first, st1) \<and> Verify cfg env2 req st1 = (Inl err, st2) \<longrightarrow>
       Redeem cfg env1 env2 env3 req st = (Returns (Some err), st2)) \<and>
   (\<forall>txInfo st1 second st2 userWallet custodial.
       Verify cfg env1 req st = (Inr txInfo, st1) \<and>
       Verify cfg env2 req st1 = (Inr second, st2) \<and>
       GetWallet env3 (ReqWalletInfo req) = Inr userWallet \<and>
       grantWallet st2 = Some custodial \<longrightarrow>
       Redeem cfg env1 env2 env3 req st =
         (case Transfer env3 custodial (tAltCurrency txInfo) (tProbi txInfo) (Destination txInfo) of
            Inl err \<Rightarrow> Returns (Some (External err))
          | Inr receipt \<Rightarrow>
              (case SubmitTransaction env3 userWallet (Transaction req) of
                 Inl err \<Rightarrow> Returns (Some (External err))
               | Inr settled \<Rightarrow> Returns None),
          st2)) \<and>
   (fst (Redeem cfg env1 env2 env3 req st) = Panics NilTxInfo \<longleftrightarrow>
     (\<exists>e st1 t st2 w. Verify cfg env1 req st = (Inl e, st1) \<and>
         Verify cfg env2 req st1 = (Inr t, st2) \<and>
         GetWallet env3 (ReqWalletInfo req) = Inr w)) \<and>
   (\<exists>cfg' env1' env2' env3' req' st' e st1 t st2.
       Verify cfg' env1' req' st' = (Inl e, st1) \<and>
       Verify cfg' env2' req' st1 = (Inr t, st2) \<and>
       fst (Redeem cfg' env1' env2' env3' req' st') = Panics NilTxInfo)"
proof (intro conjI)
  show "\<forall>first st1 err st2.
       Verify cfg env1 req st = (first, st1) \<and> Verify cfg env2 req st1 = (Inl err, st2) \<longrightarrow>
       Redeem cfg env1 env2 env3 req st = (Returns (Some err), st2)"
    using Redeem_second_error by blast
  show "\<forall>txInfo st1 second st2 userWallet custodial.
       Verify cfg env1 req st = (Inr txInfo, st1) \<and>
       Verify cfg env2 req st1 = (Inr second, st2) \<and>
       GetWallet env3 (ReqWalletInfo req) = Inr userWallet \<and>
       grantWallet st2 = Some custodial \<longrightarrow>
       Redeem cfg env1 env2 env3 req st =
         (case Transfer env3 custodial (tAltCurrency txInfo) (tProbi txInfo) (Destination txInfo) of
            Inl err \<Rightarrow> Returns (Some (External err))
          | Inr receipt \<Rightarrow>
              (case SubmitTransaction env3 userWallet (Transaction req) of
                 Inl err \<Rightarrow> Returns (Some (External err))
               | Inr settled \<Rightarrow> Returns None),
          st2)"
    using Redeem_transfer by blast
  show "fst (Redeem cfg env1 env2 env3 req st) = Panics NilTxInfo \<longleftrightarrow>
     (\<exists>e st1 t st2 w. Verify cfg env1 req st = (Inl e, st1) \<and>
         Verify cfg env2 req st1 = (Inr t, st2) \<and>
         GetWallet env3 (ReqWalletInfo req) = Inr w)"
    by (rule Redeem_NilTxInfo_iff)
  let ?ok = "fixture [(''t1'', batGrant ''g1'' ''p1'' (ToProbi 18 250))] 0 (payment 250 ''settlement'')"
  let ?down = "?ok\<lparr>GetWallet := \<lambda>info. Inl (Failure ''timeout'')\<rparr>"
  have w: "GetWallet ?ok (ReqWalletInfo (request [''t1''])) =
             Inr \<lparr>Info = ReqWalletInfo (request [''t1'']), PubKey = [], PrivKey = []\<rparr>"
    by (simp add: fixture_def)
  have "fst (Redeem settings ?down ?ok ?ok (request [''t1'']) fresh) = Panics NilTxInfo"
    unfolding Redeem_NilTxInfo_iff
    using fixture_transient_Verify fixture_one_grant_Verify w by blast
  with fixture_transient_Verify fixture_one_grant_Verify
  show "\<exists>cfg' env1' env2' env3' req' st' e st1 t st2.
       Verify cfg' env1' req' st' = (Inl e, st1) \<and>
       Verify cfg' env2' req' st1 = (Inr t, st2) \<and>
       fst (Redeem cfg' env1' env2' env3' req' st') = Panics NilTxInfo"
    by blast
qed


text \<open>
  The wallet provider times out during the first call of \<^verbatim>\<open>Verify\<close> and
  answers afterwards: the second call claims the grant, and \<^verbatim>\<open>Redeem\<close>
  panics instead of returning. And a request without grants, with the
  custodial wallet set and a \<^verbatim>\<open>Transfer\<close> that refuses and names the
  destination it was given: \<^verbatim>\<open>Redeem\<close> returns that refusal, for the
  destination of the first call's info.
\<close>

theorem Redeem_nil_txInfo_witness:
  "Redeem settings
     ((fixture [(''t1'', batGrant ''g1'' ''p1'' (ToProbi 18 250))] 0 (payment 250 ''settlement''))
        \<lparr>GetWallet := \<lambda>info. Inl (Failure ''timeout'')\<rparr>)
     (fixture [(''t1'', batGrant ''g1'' ''p1'' (ToProbi 18 250))] 0 (payment 250 ''settlement''))
     (fixture [(''t1'', batGrant ''g1'' ''p1'' (ToProbi 18 250))] 0 (payment 250 ''settlement''))
     (request [''t1'']) fresh =
   (Panics NilTxInfo,
    fresh\<lparr>claims := (\<lambda>name. {})(''promotion:p1:grants'' := {''g1''},
                                 ''promotion:p1:wallets'' := {''w1''})\<rparr>) \<and>
   Redeem settings
     (fixture [] 0 (payment 250 ''settlement''))
     (fixture [] 0 (payment 250 ''settlement''))
     ((fixture [] 0 (payment 250 ''settlement''))
        \<lparr>Transfer := \<lambda>w currency probi destination. Inl (Failure destination)\<rparr>)
     (request []) (fresh\<lparr>grantWallet := Some \<lparr>Info = ReqWalletInfo (request []), PubKey = [], PrivKey = []\<rparr>\<rparr>) =
   (Returns (Some (External (Failure ''w1''))),
    fresh\<lparr>grantWallet := Some \<lparr>Info = ReqWalletInfo (request []), PubKey = [], PrivKey = []\<rparr>\<rparr>)"
proof -
  let ?ok = "fixture [(''t1'', batGrant ''g1'' ''p1'' (ToProbi 18 250))] 0 (payment 250 ''settlement'')"
  let ?down = "?ok\<lparr>GetWallet := \<lambda>info. Inl (Failure ''timeout'')\<rparr>"
  have w: "GetWallet ?ok (ReqWalletInfo (request [''t1''])) =
             Inr \<lparr>Info = ReqWalletInfo (request [''t1'']), PubKey = [], PrivKey = []\<rparr>"
    by (simp add: fixture_def)
  have "fst (Redeem settings ?down ?ok ?ok (request [''t1'']) fresh) = Panics NilTxInfo"
    using Redeem_nil_txInfo [of settings ?down "request [''t1'']" fresh ?ok ?ok,
        THEN conjunct2, THEN conjunct2, THEN conjunct1]
      fixture_transient_Verify fixture_one_grant_Verify w by blast
  moreover have "snd (Redeem settings ?down ?ok ?ok (request [''t1'']) fresh) =
      fresh\<lparr>claims := (\<lambda>name. {})(''promotion:p1:grants'' := {''g1''},
                                   ''promotion:p1:wallets'' := {''w1''})\<rparr>"
    by (simp add: Redeem_def fixture_transient_Verify fixture_one_grant_Verify
        split: sum.splits option.splits)
  ultimately have panic: "Redeem settings ?down ?ok ?ok (request [''t1'']) fresh =
      (Panics NilTxInfo,
       fresh\<lparr>claims := (\<lambda>name. {})(''promotion:p1:grants'' := {''g1''},
                                    ''promotion:p1:wallets'' := {''w1''})\<rparr>)"
    by (metis prod.collapse)
  let ?none = "fixture [] 0 (payment 250 ''settlement'')"
  let ?refuse = "?none\<lparr>Transfer := \<lambda>w currency probi destination. Inl (Failure destination)\<rparr>"
  let ?gw = "\<lparr>Info = ReqWalletInfo (request []), PubKey = [], PrivKey = []\<rparr>"
  let ?st = "fresh\<lparr>grantWallet := Some ?gw\<rparr>"
  have u: "GetWallet ?refuse (ReqWalletInfo (request [])) = Inr ?gw"
    by (simp add: fixture_def)
  have g: "grantWallet ?st = Some ?gw" by simp
  from Redeem_nil_txInfo [of settings ?none "request []" ?st ?none ?refuse,
      THEN conjunct2, THEN conjunct1, rule_format,
      OF conjI [OF fixture_no_grants_Verify conjI [OF fixture_no_grants_Verify conjI [OF u g]]]]
  have "Redeem settings ?none ?none ?refuse (request []) ?st =
      (Returns (Some (External (Failure ''w1''))), ?st)"
    by (simp add: fixture_def)
  with panic show ?thesis by simp
qed

end
